theory Spec2Isabelle
  imports Main
begin

section \<open>Python values\<close>

text \<open>
  The agent handles dynamically typed values: whatever \<^verbatim>\<open>yaml.safe_load\<close> builds from the
  model's reply, and whatever a tool declares as a default.  The model covers \<^verbatim>\<open>None\<close>,
  booleans, integers, strings, lists and dicts.  Hashable values (the scalars) are a type of
  their own, since only they can be dict keys; a dict is an association list in insertion
  order, with distinct keys.  Floats, dates, byte strings and sets are outside the model.
  A string is a list of code points below 256, one \<^typ>\<open>char\<close> each.
\<close>

datatype pyscalar = PNone | PBool bool | PInt int | PStr string

datatype pyval = PScalar pyscalar | PList "pyval list" | PDict "(pyscalar \<times> pyval) list"

text \<open>
  Exceptions that leave a function.  \<open>LLMError\<close> is whatever \<^verbatim>\<open>call_llm\<close> re-raises,
  \<open>YAMLError\<close> what \<^verbatim>\<open>yaml.safe_load\<close> raises, and \<open>BaseExit\<close> an exception of a tool that
  is not an instance of \<^verbatim>\<open>Exception\<close> (\<^verbatim>\<open>SystemExit\<close>, \<^verbatim>\<open>KeyboardInterrupt\<close>).
\<close>

datatype py_error =
    IndexError
  | KeyError string
  | TypeError
  | AttributeError
  | LLMError string
  | YAMLError string
  | BaseExit string

section \<open>Strings\<close>

definition newline :: string where
  "newline = [CHR 0x0A]"

text \<open>\<^verbatim>\<open>sep.join(xs)\<close>\<close>

fun join :: "string \<Rightarrow> string list \<Rightarrow> string" where
  "join sep [] = []"
| "join sep [x] = x"
| "join sep (x # y # ys) = x @ sep @ join sep (y # ys)"

text \<open>
  \<^verbatim>\<open>s.split(sep)\<close> for a non-empty separator: the pieces between the non-overlapping
  occurrences of \<open>sep\<close>, found from the left.  \<open>cur\<close> is the piece being read.  (Python
  raises \<^verbatim>\<open>ValueError\<close> on an empty separator; the two separators of this program are
  non-empty constants.)
\<close>

function split_at :: "string \<Rightarrow> string \<Rightarrow> string \<Rightarrow> string list" where
  "split_at sep cur s =
     (if s = [] then [cur]
      else if sep \<noteq> [] \<and> take (length sep) s = sep
        then cur # split_at sep [] (drop (length sep) s)
      else split_at sep (cur @ [hd s]) (tl s))"
  by pat_completeness auto
termination
  by (relation "measure (\<lambda>(sep, cur, s). length s)") auto

declare split_at.simps [simp del]

definition py_split :: "string \<Rightarrow> string \<Rightarrow> string list" where
  "py_split s sep = split_at sep [] s"

text \<open>
  \<^verbatim>\<open>s.strip()\<close>: whitespace is what \<^verbatim>\<open>str.isspace\<close> accepts, below 256 the code points
  9 to 13, 28 to 32, 133 and 160.
\<close>

definition is_space :: "char \<Rightarrow> bool" where
  "is_space c =
     (let n = (of_char c :: nat)
      in (9 \<le> n \<and> n \<le> 13) \<or> (28 \<le> n \<and> n \<le> 32) \<or> n = 133 \<or> n = 160)"

definition py_strip :: "string \<Rightarrow> string" where
  "py_strip s = rev (dropWhile is_space (rev (dropWhile is_space s)))"

text \<open>\<^verbatim>\<open>s.upper()\<close> on the letters a to z; it is applied to the role names only.\<close>

definition upper_char :: "char \<Rightarrow> char" where
  "upper_char c =
     (let n = (of_char c :: nat) in if 97 \<le> n \<and> n \<le> 122 then char_of (n - 32) else c)"

definition py_upper :: "string \<Rightarrow> string" where
  "py_upper s = map upper_char s"

text \<open>\<^verbatim>\<open>xs[-k:]\<close> and \<^verbatim>\<open>xs[:k]\<close>\<close>

definition slice_last :: "nat \<Rightarrow> 'a list \<Rightarrow> 'a list" where
  "slice_last k xs = drop (length xs - k) xs"

definition slice_first :: "nat \<Rightarrow> 'a list \<Rightarrow> 'a list" where
  "slice_first k xs = take k xs"

subsection \<open>\<^verbatim>\<open>str\<close> and \<^verbatim>\<open>repr\<close>\<close>

definition digit_char :: "nat \<Rightarrow> char" where
  "digit_char d = char_of (48 + d)"

fun str_nat :: "nat \<Rightarrow> string" where
  "str_nat n = (if n < 10 then [digit_char n] else str_nat (n div 10) @ [digit_char (n mod 10)])"

declare str_nat.simps [simp del]

definition str_int :: "int \<Rightarrow> string" where
  "str_int i = (if i < 0 then ''-'' @ str_nat (nat (- i)) else str_nat (nat i))"

definition hex_digit :: "nat \<Rightarrow> char" where
  "hex_digit d = (if d < 10 then char_of (48 + d) else char_of (87 + d))"

text \<open>
  \<^verbatim>\<open>repr\<close> of a string: double quotes when the string has a single quote and no double
  quote, single quotes otherwise; the quote and the backslash are escaped, tab, newline and
  carriage return are written with their letters, and the other code points that are not
  printable as \<^verbatim>\<open>\xhh\<close>.
\<close>

definition printable :: "char \<Rightarrow> bool" where
  "printable c =
     (let n = (of_char c :: nat) in 32 \<le> n \<and> n \<noteq> 127 \<and> \<not> (128 \<le> n \<and> n \<le> 160) \<and> n \<noteq> 173)"

definition repr_char :: "char \<Rightarrow> char \<Rightarrow> string" where
  "repr_char quote c =
     (if c = quote \<or> c = CHR 0x5C then [CHR 0x5C, c]
      else if c = CHR 0x09 then [CHR 0x5C, CHR ''t'']
      else if c = CHR 0x0A then [CHR 0x5C, CHR ''n'']
      else if c = CHR 0x0D then [CHR 0x5C, CHR ''r'']
      else if \<not> printable c
        then [CHR 0x5C, CHR ''x'', hex_digit ((of_char c :: nat) div 16),
              hex_digit ((of_char c :: nat) mod 16)]
      else [c])"

definition repr_str :: "string \<Rightarrow> string" where
  "repr_str s =
     (let quote = (if CHR 0x27 \<in> set s \<and> CHR 0x22 \<notin> set s then CHR 0x22 else CHR 0x27)
      in [quote] @ concat (map (repr_char quote) s) @ [quote])"

fun str_scalar :: "pyscalar \<Rightarrow> string" where
  "str_scalar PNone = ''None''"
| "str_scalar (PBool b) = (if b then ''True'' else ''False'')"
| "str_scalar (PInt i) = str_int i"
| "str_scalar (PStr s) = s"

fun repr_scalar :: "pyscalar \<Rightarrow> string" where
  "repr_scalar (PStr s) = repr_str s"
| "repr_scalar v = str_scalar v"

fun py_repr :: "pyval \<Rightarrow> string" where
  "py_repr (PScalar v) = repr_scalar v"
| "py_repr (PList xs) = ''['' @ join '', '' (map py_repr xs) @ '']''"
| "py_repr (PDict kvs) =
     ''{'' @ join '', '' (map (\<lambda>(k, v). repr_scalar k @ '': '' @ py_repr v) kvs) @ ''}''"

text \<open>\<^verbatim>\<open>str(v)\<close>, which is also what an f-string writes for \<^verbatim>\<open>{v}\<close>.\<close>

fun py_str :: "pyval \<Rightarrow> string" where
  "py_str (PScalar v) = str_scalar v"
| "py_str v = py_repr v"

subsection \<open>Subscripts and lookups\<close>

text \<open>
  \<^verbatim>\<open>v[key]\<close> with a string key: a dict gives the value or raises \<^verbatim>\<open>KeyError\<close>; every other
  value of the model raises \<^verbatim>\<open>TypeError\<close> (\<^verbatim>\<open>None\<close>, a number: not subscriptable; a string
  or a list: the index must be an integer).
\<close>

fun py_getitem :: "pyval \<Rightarrow> string \<Rightarrow> py_error + pyval" where
  "py_getitem (PDict kvs) key =
     (case map_of kvs (PStr key) of None \<Rightarrow> Inl (KeyError key) | Some v \<Rightarrow> Inr v)"
| "py_getitem v key = Inl TypeError"

text \<open>\<^verbatim>\<open>xs[i]\<close> for an index from the front\<close>

definition py_index :: "'a list \<Rightarrow> nat \<Rightarrow> py_error + 'a" where
  "py_index xs i = (if i < length xs then Inr (xs ! i) else Inl IndexError)"

text \<open>\<^verbatim>\<open>v.get(key, default)\<close>; only a dict has the method.\<close>

fun py_get :: "pyval \<Rightarrow> string \<Rightarrow> pyval \<Rightarrow> py_error + pyval" where
  "py_get (PDict kvs) key dflt =
     (case map_of kvs (PStr key) of None \<Rightarrow> Inr dflt | Some v \<Rightarrow> Inr v)"
| "py_get v key dflt = Inl AttributeError"

text \<open>\<^verbatim>\<open>d[k] = v\<close> on a dict in insertion order: a known key keeps its place.\<close>

fun dict_set :: "'k \<Rightarrow> 'v \<Rightarrow> ('k \<times> 'v) list \<Rightarrow> ('k \<times> 'v) list" where
  "dict_set k v [] = [(k, v)]"
| "dict_set k v ((k', v') # kvs) =
     (if k' = k then (k, v) # kvs else (k', v') # dict_set k v kvs)"

section \<open>Tools and the registry (agent.py)\<close>

text \<open>
  A tool is any Python callable.  The program calls it in one of two ways and looks at
  the outcome through \<^verbatim>\<open>str\<close> only, so a call is modelled by its convention and arguments,
  and its outcome by one of: the call returned a value whose \<^verbatim>\<open>str\<close> is the given string;
  it raised an instance of \<^verbatim>\<open>Exception\<close> with the given message (this includes the
  \<^verbatim>\<open>TypeError\<close> of a call whose arguments do not fit the signature); it raised an exception
  outside \<^verbatim>\<open>Exception\<close>.
\<close>

datatype tool_call = Kwargs "(pyscalar \<times> pyval) list" | Positional pyval

datatype tool_outcome = Returns string | Raises string | Exits string

type_synonym tool_func = "tool_call \<Rightarrow> tool_outcome"

datatype param_kind =
  POSITIONAL_ONLY | POSITIONAL_OR_KEYWORD | VAR_POSITIONAL | KEYWORD_ONLY | VAR_KEYWORD

fun str_kind :: "param_kind \<Rightarrow> string" where
  "str_kind POSITIONAL_ONLY = ''POSITIONAL_ONLY''"
| "str_kind POSITIONAL_OR_KEYWORD = ''POSITIONAL_OR_KEYWORD''"
| "str_kind VAR_POSITIONAL = ''VAR_POSITIONAL''"
| "str_kind KEYWORD_ONLY = ''KEYWORD_ONLY''"
| "str_kind VAR_KEYWORD = ''VAR_KEYWORD''"

text \<open>
  What reflection sees of a callable: \<^verbatim>\<open>__name__\<close>, \<^verbatim>\<open>inspect.getdoc\<close> (\<open>None\<close> without a
  docstring), the parameters of \<^verbatim>\<open>inspect.signature\<close> in order (\<open>p_default = None\<close> is
  \<^verbatim>\<open>Parameter.empty\<close>), and \<^verbatim>\<open>get_type_hints\<close>, each type given by its \<^verbatim>\<open>str\<close>.
\<close>

record parameter =
  p_default :: "pyval option"
  p_kind :: param_kind

record py_callable =
  fn_name :: string
  fn_doc :: "string option"
  fn_parameters :: "(string \<times> parameter) list"
  fn_type_hints :: "(string \<times> string) list"
  fn_call :: tool_func

record param_info =
  pi_type :: string
  pi_default :: pyval
  pi_kind :: string

record tool_info =
  ti_name :: string
  ti_function :: tool_func
  ti_description :: string
  ti_parameters :: "(string \<times> param_info) list"

definition register_param :: "py_callable \<Rightarrow> string \<Rightarrow> parameter \<Rightarrow> param_info" where
  "register_param tool param_name param =
     (let param_type = (case map_of (fn_type_hints tool) param_name of
                          None \<Rightarrow> ''Any'' | Some t \<Rightarrow> t);
          default = (case p_default param of Some v \<Rightarrow> v | None \<Rightarrow> PScalar PNone)
      in \<lparr>pi_type = param_type, pi_default = default, pi_kind = str_kind (p_kind param)\<rparr>)"

definition register_tool :: "py_callable \<Rightarrow> tool_info" where
  "register_tool tool =
     (let name = fn_name tool;
          doc = (case fn_doc tool of
                   None \<Rightarrow> ''Function '' @ name
                 | Some d \<Rightarrow> if d = [] then ''Function '' @ name else d);
          params = map (\<lambda>(param_name, param). (param_name, register_param tool param_name param))
                     (fn_parameters tool)
      in \<lparr>ti_name = name, ti_function = fn_call tool, ti_description = doc,
          ti_parameters = params\<rparr>)"

type_synonym registry = "(string \<times> tool_info) list"

fun build_registry :: "registry \<Rightarrow> py_callable list \<Rightarrow> registry" where
  "build_registry reg [] = reg"
| "build_registry reg (tool # tools) =
     (let tool_info = register_tool tool
      in build_registry (dict_set (ti_name tool_info) tool_info reg) tools)"

section \<open>The run context\<close>

record tool_call_record =
  tc_tool :: pyscalar
  tc_args :: pyval
  tc_result :: string

text \<open>
  The \<^verbatim>\<open>shared\<close> dict of one run.  \<open>last_decision\<close> and \<open>final_answer\<close> are \<open>None\<close> while
  the dict has no such key.
\<close>

record shared =
  query :: string
  base_prompt :: string
  conversation_history :: string
  tool_registry :: registry
  tool_calls :: "tool_call_record list"
  last_decision :: "pyval option"
  final_answer :: "pyval option"

section \<open>The logger (logger.py)\<close>

text \<open>
  The process-wide logger has two switches.  Its methods return at once when their switch
  is off and print otherwise; printing is not modelled.  One method can raise on the
  values of the model: \<^verbatim>\<open>decision(action, details)\<close> evaluates \<^verbatim>\<open>action.upper()\<close> when the
  logger is enabled, and only a string has that method.  The other methods format their
  arguments with \<^verbatim>\<open>str\<close> or \<^verbatim>\<open>json.dumps\<close>, which accept every value of the model.
\<close>

record logger =
  enabled :: bool
  verbose :: bool

definition set_logging :: "bool \<Rightarrow> bool \<Rightarrow> logger" where
  "set_logging on verbose_on = \<lparr>enabled = on, verbose = verbose_on\<rparr>"

fun is_str :: "pyval \<Rightarrow> bool" where
  "is_str (PScalar (PStr s)) = True"
| "is_str v = False"

definition logger_decision :: "logger \<Rightarrow> pyval \<Rightarrow> pyval \<Rightarrow> py_error + unit" where
  "logger_decision lg action details =
     (if \<not> enabled lg then Inr ()
      else if is_str action then Inr () else Inl AttributeError)"

section \<open>DecideAction (nodes.py)\<close>

record decide_inputs =
  in_query :: string
  in_base_prompt :: string
  in_conversation_history :: string
  in_tool_registry :: registry
  in_tool_calls :: "tool_call_record list"

definition DecideAction_prep :: "shared \<Rightarrow> decide_inputs" where
  "DecideAction_prep sh =
     \<lparr>in_query = query sh, in_base_prompt = base_prompt sh,
      in_conversation_history = conversation_history sh,
      in_tool_registry = tool_registry sh, in_tool_calls = tool_calls sh\<rparr>"

definition param_str :: "string \<times> param_info \<Rightarrow> string" where
  "param_str = (\<lambda>(param_name, info).
     param_name @ '': '' @ pi_type info @
       (if pi_default info \<noteq> PScalar PNone then '' = '' @ py_str (pi_default info) else []))"

definition tool_desc :: "string \<times> tool_info \<Rightarrow> string" where
  "tool_desc = (\<lambda>(name, info).
     (let params_desc = map param_str (ti_parameters info);
          params_text = (if params_desc \<noteq> [] then ''('' @ join '', '' params_desc @ '')''
                         else ''()'')
      in ''- '' @ name @ params_text @ '': '' @ ti_description info))"

definition tools_text :: "registry \<Rightarrow> string" where
  "tools_text reg =
     (let tools_desc = map tool_desc reg
      in if tools_desc \<noteq> [] then join newline tools_desc else ''No tools available'')"

definition call_line :: "tool_call_record \<Rightarrow> string" where
  "call_line call =
     ''- '' @ str_scalar (tc_tool call) @ '': '' @ slice_first 200 (tc_result call) @ ''...''"

definition tool_history :: "tool_call_record list \<Rightarrow> string" where
  "tool_history calls =
     (if calls \<noteq> []
        then newline @ ''Recent Tool Calls:'' @ newline
               @ join newline (map call_line (slice_last 5 calls))
      else [])"

definition unlines :: "string list \<Rightarrow> string" where
  "unlines ls = concat (map (\<lambda>l. l @ newline) ls)"

definition build_prompt :: "decide_inputs \<Rightarrow> string" where
  "build_prompt inputs = unlines
     [''### SYSTEM'',
      in_base_prompt inputs,
      '''',
      ''### CONVERSATION HISTORY'',
      in_conversation_history inputs,
      '''',
      ''### CURRENT QUERY'',
      in_query inputs,
      '''',
      ''### AVAILABLE TOOLS'',
      tools_text (in_tool_registry inputs),
      tool_history (in_tool_calls inputs),
      '''',
      ''### DECISION'',
      ''Decide the next action. You can either:'',
      ''1. Call a tool to gather information'',
      ''2. Provide the final answer if you have sufficient information'',
      '''',
      ''Return your decision in YAML format:'',
      '''',
      ''```yaml'',
      ''thinking: |'',
      ''    <step-by-step reasoning about what to do next>'',
      ''action: tool OR answer'',
      ''tool_name: <name of tool if action is tool>'',
      ''tool_args: <arguments for tool as a dict if action is tool>'',
      ''final_answer: |'',
      ''    <complete answer if action is answer>'',
      ''```'']"

text \<open>\<^verbatim>\<open>response.split("```yaml")[1].split("```")[0].strip()\<close>\<close>

definition extract_yaml :: "string \<Rightarrow> py_error + string" where
  "extract_yaml response =
     (case py_index (py_split response ''```yaml'') 1 of
        Inl e \<Rightarrow> Inl e
      | Inr after \<Rightarrow>
          (case py_index (py_split after ''```'') 0 of
             Inl e \<Rightarrow> Inl e
           | Inr block \<Rightarrow> Inr (py_strip block)))"

text \<open>
  The two collaborators of \<open>exec\<close> are parameters: \<open>call_llm\<close> is the outcome of
  \<^verbatim>\<open>utils.call_llm\<close> on the prompt (the reply, or the exception it re-raises), and
  \<open>safe_load\<close> is \<^verbatim>\<open>yaml.safe_load\<close>.
\<close>

type_synonym llm = "string \<Rightarrow> py_error + string"
type_synonym yaml_loader = "string \<Rightarrow> py_error + pyval"

definition DecideAction_exec :: "llm \<Rightarrow> yaml_loader \<Rightarrow> decide_inputs \<Rightarrow> py_error + pyval" where
  "DecideAction_exec call_llm safe_load inputs =
     (let prompt = build_prompt inputs
      in case call_llm prompt of
           Inl e \<Rightarrow> Inl e
         | Inr response \<Rightarrow>
             (case extract_yaml response of
                Inl e \<Rightarrow> Inl e
              | Inr yaml_str \<Rightarrow> safe_load yaml_str))"

text \<open>
  \<open>post\<close> mutates \<open>shared\<close> in place, so the context is returned also when an exception
  leaves the function.  \<open>lg\<close> is the process-wide logger at the time of the call.
\<close>

definition DecideAction_post ::
  "logger \<Rightarrow> shared \<Rightarrow> pyval \<Rightarrow> (py_error + string) \<times> shared" where
  "DecideAction_post lg sh exec_res =
     (let sh1 = sh\<lparr>last_decision := Some exec_res\<rparr>
      in case py_getitem exec_res ''action'' of
           Inl e \<Rightarrow> (Inl e, sh1)
         | Inr action \<Rightarrow>
             (case logger_decision lg action exec_res of
                Inl e \<Rightarrow> (Inl e, sh1)
              | Inr u \<Rightarrow>
                  if action = PScalar (PStr ''tool'') then (Inr ''tool'', sh1)
                  else (case py_getitem exec_res ''final_answer'' of
                          Inl e \<Rightarrow> (Inl e, sh1)
                        | Inr answer \<Rightarrow>
                            (Inr ''answer'', sh1\<lparr>final_answer := Some answer\<rparr>))))"

section \<open>CallTool (nodes.py)\<close>

text \<open>
  \<^verbatim>\<open>shared['tool_registry'].get(tool_name)\<close>: the keys are strings, so only a string can be
  found; a list or a dict as the name cannot be hashed.
\<close>

fun registry_get :: "registry \<Rightarrow> pyscalar \<Rightarrow> tool_info option" where
  "registry_get reg (PStr name) = map_of reg name"
| "registry_get reg v = None"

definition CallTool_prep ::
  "shared \<Rightarrow> py_error + (tool_func option \<times> pyscalar \<times> pyval)" where
  "CallTool_prep sh =
     (case last_decision sh of
        None \<Rightarrow> Inl (KeyError ''last_decision'')
      | Some decision \<Rightarrow>
          (case py_getitem decision ''tool_name'' of
             Inl e \<Rightarrow> Inl e
           | Inr tool_name \<Rightarrow>
               (case py_get decision ''tool_args'' (PDict []) of
                  Inl e \<Rightarrow> Inl e
                | Inr tool_args \<Rightarrow>
                    (case tool_name of
                       PScalar name \<Rightarrow>
                         (case registry_get (tool_registry sh) name of
                            None \<Rightarrow> Inr (None, name, tool_args)
                          | Some tool_info \<Rightarrow> Inr (Some (ti_function tool_info), name, tool_args))
                     | _ \<Rightarrow> Inl TypeError))))"

text \<open>
  The call inside the \<^verbatim>\<open>try\<close>: \<^verbatim>\<open>tool_func(**tool_args)\<close> when \<^verbatim>\<open>tool_args\<close> is a dict,
  \<^verbatim>\<open>tool_func(tool_args)\<close> otherwise, followed by \<^verbatim>\<open>str(result)\<close>.
\<close>

definition invoke :: "tool_func \<Rightarrow> pyval \<Rightarrow> tool_outcome" where
  "invoke f tool_args =
     (case tool_args of PDict kwargs \<Rightarrow> f (Kwargs kwargs) | _ \<Rightarrow> f (Positional tool_args))"

definition CallTool_exec :: "tool_func option \<times> pyscalar \<times> pyval \<Rightarrow> py_error + string" where
  "CallTool_exec = (\<lambda>(tool_func, tool_name, tool_args).
     case tool_func of
       None \<Rightarrow> Inr (''Error: Tool '' @ [CHR 0x27] @ str_scalar tool_name @ [CHR 0x27] @ '' not found'')
     | Some f \<Rightarrow>
         (case invoke f tool_args of
            Returns result_str \<Rightarrow> Inr result_str
          | Raises msg \<Rightarrow> Inr (''Error calling '' @ str_scalar tool_name @ '': '' @ msg)
          | Exits msg \<Rightarrow> Inl (BaseExit msg)))"

definition CallTool_post ::
  "shared \<Rightarrow> tool_func option \<times> pyscalar \<times> pyval \<Rightarrow> string \<Rightarrow> string \<times> shared" where
  "CallTool_post sh prep_res exec_res =
     (case prep_res of (tool_func, tool_name, tool_args) \<Rightarrow>
        (''decide'',
         sh\<lparr>tool_calls := tool_calls sh @
               [\<lparr>tc_tool = tool_name, tc_args = tool_args, tc_result = exec_res\<rparr>]\<rparr>))"

section \<open>ProvideAnswer (nodes.py)\<close>

definition ProvideAnswer_prep :: "shared \<Rightarrow> pyval" where
  "ProvideAnswer_prep sh =
     (case final_answer sh of Some v \<Rightarrow> v | None \<Rightarrow> PScalar (PStr ''No answer generated''))"

definition ProvideAnswer_exec :: "pyval \<Rightarrow> pyval" where
  "ProvideAnswer_exec answer = answer"

definition ProvideAnswer_post :: "shared \<Rightarrow> pyval \<Rightarrow> pyval \<Rightarrow> string \<times> shared" where
  "ProvideAnswer_post sh prep_res exec_res = (''done'', sh)"

section \<open>The flow (flow.py)\<close>

datatype node = DecideAction | CallTool | ProvideAnswer

text \<open>
  The connections that \<^verbatim>\<open>create_agent_flow\<close> makes: \<^verbatim>\<open>decide - "tool" >> call_tool\<close>,
  \<^verbatim>\<open>decide - "answer" >> provide_answer\<close>, \<^verbatim>\<open>call_tool - "decide" >> decide\<close>; the flow
  starts at the decision node.
\<close>

fun successors :: "node \<Rightarrow> string \<Rightarrow> node option" where
  "successors DecideAction action =
     (if action = ''tool'' then Some CallTool
      else if action = ''answer'' then Some ProvideAnswer else None)"
| "successors CallTool action = (if action = ''decide'' then Some DecideAction else None)"
| "successors ProvideAnswer action = None"

definition flow_start :: node where
  "flow_start = DecideAction"

text \<open>
  The state of a running flow: the context, and two counters that the program does not
  have, the number of model calls made and of node steps taken so far.  The model is
  given as the outcome of its \<open>k\<close>-th call on a prompt, so that it may answer the same
  prompt differently each time.
\<close>

record world =
  model_calls :: nat
  node_steps :: nat
  ctx :: shared

text \<open>
  Modelled from the spec: the flow engine (\<^verbatim>\<open>minllm.Node\<close>, \<^verbatim>\<open>minllm.Flow\<close>) is not among
  the sources.  By section 4.4 a node step runs \<open>prep\<close>, \<open>exec\<close> and \<open>post\<close> of
  the node in this order on the shared context, and \<open>post\<close> names the transition; by
  section 7 an exception of a step is not retried or recovered, it ends the run.
\<close>

definition node_run ::
  "logger \<Rightarrow> (nat \<Rightarrow> llm) \<Rightarrow> yaml_loader \<Rightarrow> node \<Rightarrow> world \<Rightarrow> (py_error + string) \<times> world" where
  "node_run lg call_llm safe_load nd w =
     (let sh = ctx w; w1 = w\<lparr>node_steps := Suc (node_steps w)\<rparr>
      in case nd of
           DecideAction \<Rightarrow>
             (let w2 = w1\<lparr>model_calls := Suc (model_calls w)\<rparr>
              in case DecideAction_exec (call_llm (model_calls w)) safe_load
                        (DecideAction_prep sh) of
                   Inl e \<Rightarrow> (Inl e, w2)
                 | Inr exec_res \<Rightarrow>
                     (case DecideAction_post lg sh exec_res of
                        (r, sh') \<Rightarrow> (r, w2\<lparr>ctx := sh'\<rparr>)))
         | CallTool \<Rightarrow>
             (case CallTool_prep sh of
                Inl e \<Rightarrow> (Inl e, w1)
              | Inr prep_res \<Rightarrow>
                  (case CallTool_exec prep_res of
                     Inl e \<Rightarrow> (Inl e, w1)
                   | Inr exec_res \<Rightarrow>
                       (case CallTool_post sh prep_res exec_res of
                          (action, sh') \<Rightarrow> (Inr action, w1\<lparr>ctx := sh'\<rparr>))))
         | ProvideAnswer \<Rightarrow>
             (let prep_res = ProvideAnswer_prep sh;
                  exec_res = ProvideAnswer_exec prep_res
              in case ProvideAnswer_post sh prep_res exec_res of
                   (action, sh') \<Rightarrow> (Inr action, w1\<lparr>ctx := sh'\<rparr>)))"

text \<open>
  Modelled from the spec: \<^verbatim>\<open>Flow.run\<close> is not among the sources.  By section 4.4 the loop
  runs the current node and follows the transition that its \<open>post\<close> names, until a step
  names a transition that has no successor; there is no step limit, so the loop need not
  end, and then the value is \<open>None\<close>.
\<close>

partial_function (option) flow_orch ::
  "logger \<Rightarrow> (nat \<Rightarrow> llm) \<Rightarrow> yaml_loader \<Rightarrow> node \<Rightarrow> world \<Rightarrow> ((py_error + string) \<times> world) option" where
  "flow_orch lg call_llm safe_load nd w =
     (case node_run lg call_llm safe_load nd w of
        (Inl e, w') \<Rightarrow> Some (Inl e, w')
      | (Inr action, w') \<Rightarrow>
          (case successors nd action of
             None \<Rightarrow> Some (Inr action, w')
           | Some nxt \<Rightarrow> flow_orch lg call_llm safe_load nxt w'))"

text \<open>
  Where the flow stands after \<open>k\<close> steps that have each named a transition with a
  successor: the node to run next and the state.  It is \<open>None\<close> when the flow has ended
  or raised before.
\<close>

fun flow_steps ::
  "logger \<Rightarrow> (nat \<Rightarrow> llm) \<Rightarrow> yaml_loader \<Rightarrow> nat \<Rightarrow> node \<times> world \<Rightarrow> (node \<times> world) option" where
  "flow_steps lg call_llm safe_load 0 c = Some c"
| "flow_steps lg call_llm safe_load (Suc k) c =
     (case node_run lg call_llm safe_load (fst c) (snd c) of
        (Inl e, w') \<Rightarrow> None
      | (Inr action, w') \<Rightarrow>
          (case successors (fst c) action of
             None \<Rightarrow> None
           | Some nxt \<Rightarrow> flow_steps lg call_llm safe_load k (nxt, w')))"

definition flow_run ::
  "logger \<Rightarrow> (nat \<Rightarrow> llm) \<Rightarrow> yaml_loader \<Rightarrow> shared \<Rightarrow> ((py_error + string) \<times> shared) option" where
  "flow_run lg call_llm safe_load sh =
     map_option (\<lambda>(r, w). (r, ctx w))
       (flow_orch lg call_llm safe_load flow_start \<lparr>model_calls = 0, node_steps = 0, ctx = sh\<rparr>)"

section \<open>The agent (agent.py)\<close>

record message =
  role :: string
  content :: pyval

record agent =
  self_logger :: logger
  self_base_prompt :: string
  self_tools :: "py_callable list"
  self_conversation_history :: "message list"
  self_tool_call_history :: "tool_call_record list"
  self_tool_registry :: registry

text \<open>
  The constructor sets the process-wide logger, enabled when either flag is given, and
  keeps it.
\<close>

definition Agent_init :: "string \<Rightarrow> py_callable list \<Rightarrow> bool \<Rightarrow> bool \<Rightarrow> agent" where
  "Agent_init prompt tools logging verbose_logging =
     \<lparr>self_logger = set_logging (logging \<or> verbose_logging) verbose_logging,
      self_base_prompt = prompt, self_tools = tools, self_conversation_history = [],
      self_tool_call_history = [], self_tool_registry = build_registry [] tools\<rparr>"

definition format_message :: "message \<Rightarrow> string" where
  "format_message msg = py_upper (role msg) @ '': '' @ py_str (content msg)"

definition recent_history :: "agent \<Rightarrow> message list" where
  "recent_history a = slice_last 20 (self_conversation_history a)"

definition get_optimized_history :: "agent \<Rightarrow> string" where
  "get_optimized_history a =
     (if recent_history a = [] then ''No previous conversation''
      else join newline (map format_message (recent_history a)))"

definition initial_shared :: "agent \<Rightarrow> string \<Rightarrow> shared" where
  "initial_shared a q =
     \<lparr>query = q, base_prompt = self_base_prompt a,
      conversation_history = get_optimized_history a,
      tool_registry = self_tool_registry a, tool_calls = [],
      last_decision = None, final_answer = None\<rparr>"

text \<open>\<^verbatim>\<open>self.conversation_history.append({'role': r, 'content': c})\<close>\<close>

definition append_message :: "agent \<Rightarrow> string \<Rightarrow> pyval \<Rightarrow> agent" where
  "append_message a r c =
     a\<lparr>self_conversation_history := self_conversation_history a @ [\<lparr>role = r, content = c\<rparr>]\<rparr>"

text \<open>
  \<^verbatim>\<open>Agent.run\<close>, with \<^verbatim>\<open>flow.run(shared)\<close> as a parameter: the outcome of the flow on the
  context (\<open>None\<close> when it does not end).  The agent is returned also when the flow
  raises, since the query has been appended to its history by then.
\<close>

definition run_with ::
  "(shared \<Rightarrow> ((py_error + string) \<times> shared) option) \<Rightarrow> agent \<Rightarrow> string
     \<Rightarrow> ((py_error + pyval) \<times> agent) option" where
  "run_with flow a q =
     (let a1 = append_message a ''user'' (PScalar (PStr q));
          sh = initial_shared a1 q
      in case flow sh of
           None \<Rightarrow> None
         | Some (Inl e, sh') \<Rightarrow> Some (Inl e, a1)
         | Some (Inr action, sh') \<Rightarrow>
             (let answer = (case final_answer sh' of
                              Some v \<Rightarrow> v
                            | None \<Rightarrow> PScalar (PStr ''Unable to generate response''));
                  a2 = append_message a1 ''assistant'' answer
              in Some (Inr answer,
                   a2\<lparr>self_tool_call_history := self_tool_call_history a2 @ tool_calls sh'\<rparr>)))"

text \<open>
  \<^verbatim>\<open>Agent.run\<close> with the flow of \<^verbatim>\<open>create_agent_flow\<close>.  The nodes ask for the process-wide
  logger, \<open>lg\<close>, which is the logger of the agent constructed last.
\<close>

definition run ::
  "logger \<Rightarrow> (nat \<Rightarrow> llm) \<Rightarrow> yaml_loader \<Rightarrow> agent \<Rightarrow> string
     \<Rightarrow> ((py_error + pyval) \<times> agent) option" where
  "run lg call_llm safe_load a q = run_with (flow_run lg call_llm safe_load) a q"

definition clear_history :: "agent \<Rightarrow> agent" where
  "clear_history a = a\<lparr>self_conversation_history := [], self_tool_call_history := []\<rparr>"

section \<open>Test data\<close>

text \<open>
  Three tools.  \<^verbatim>\<open>def add(a: int, b: int = 0) -> int\<close> has the docstring
  \<^verbatim>\<open>Add two numbers.\<close> and returns \<^verbatim>\<open>a + b\<close>; \<^verbatim>\<open>def fail(reason, *, code)\<close> has neither
  annotations nor a docstring and raises \<^verbatim>\<open>ValueError(reason)\<close>; \<^verbatim>\<open>def quit()\<close> calls
  \<^verbatim>\<open>sys.exit("bye")\<close>.  Their calls are described for integer arguments that fit the
  signature; every other call is given as raising, with the message \<^verbatim>\<open>unsupported call\<close>.
\<close>

definition class_int :: string where
  "class_int = ''<class '' @ [CHR 0x27] @ ''int'' @ [CHR 0x27] @ ''>''"

fun add_call :: tool_func where
  "add_call (Kwargs kwargs) =
     (if \<exists>k \<in> set (map fst kwargs). k \<noteq> PStr ''a'' \<and> k \<noteq> PStr ''b''
        then Raises ''unsupported call''
      else case (map_of kwargs (PStr ''a''), map_of kwargs (PStr ''b'')) of
             (Some (PScalar (PInt x)), Some (PScalar (PInt y))) \<Rightarrow> Returns (str_int (x + y))
           | (Some (PScalar (PInt x)), None) \<Rightarrow> Returns (str_int (x + 0))
           | _ \<Rightarrow> Raises ''unsupported call'')"
| "add_call (Positional v) =
     (case v of PScalar (PInt x) \<Rightarrow> Returns (str_int (x + 0))
      | _ \<Rightarrow> Raises ''unsupported call'')"

fun fail_call :: tool_func where
  "fail_call (Kwargs kwargs) =
     (if \<exists>k \<in> set (map fst kwargs). k \<noteq> PStr ''reason'' \<and> k \<noteq> PStr ''code''
        then Raises ''unsupported call''
      else case (map_of kwargs (PStr ''reason''), map_of kwargs (PStr ''code'')) of
             (Some reason, Some code) \<Rightarrow> Raises (py_str reason)
           | _ \<Rightarrow> Raises ''unsupported call'')"
| "fail_call (Positional v) = Raises ''unsupported call''"

fun quit_call :: tool_func where
  "quit_call (Kwargs kwargs) =
     (if kwargs = [] then Exits ''bye'' else Raises ''unsupported call'')"
| "quit_call (Positional v) = Raises ''unsupported call''"

definition add_tool :: py_callable where
  "add_tool =
     \<lparr>fn_name = ''add'', fn_doc = Some ''Add two numbers.'',
      fn_parameters =
        [(''a'', \<lparr>p_default = None, p_kind = POSITIONAL_OR_KEYWORD\<rparr>),
         (''b'', \<lparr>p_default = Some (PScalar (PInt 0)), p_kind = POSITIONAL_OR_KEYWORD\<rparr>)],
      fn_type_hints = [(''a'', class_int), (''b'', class_int), (''return'', class_int)],
      fn_call = add_call\<rparr>"

definition fail_tool :: py_callable where
  "fail_tool =
     \<lparr>fn_name = ''fail'', fn_doc = None,
      fn_parameters =
        [(''reason'', \<lparr>p_default = None, p_kind = POSITIONAL_OR_KEYWORD\<rparr>),
         (''code'', \<lparr>p_default = None, p_kind = KEYWORD_ONLY\<rparr>)],
      fn_type_hints = [],
      fn_call = fail_call\<rparr>"

definition quit_tool :: py_callable where
  "quit_tool =
     \<lparr>fn_name = ''quit'', fn_doc = None, fn_parameters = [], fn_type_hints = [],
      fn_call = quit_call\<rparr>"

text \<open>The logger with logging off, as the constructor leaves it by default, and on.\<close>

definition quiet :: logger where
  "quiet = set_logging False False"

definition loud :: logger where
  "loud = set_logging True False"

definition test_agent :: agent where
  "test_agent = Agent_init ''Be brief.'' [add_tool, fail_tool, quit_tool] False False"

text \<open>
  Blocks of YAML and the values that \<^verbatim>\<open>yaml.safe_load\<close> builds from them.  The loader of the
  tests knows these blocks only.
\<close>

definition add_block :: string where
  "add_block = ''action: tool'' @ newline @ ''tool_name: add'' @ newline
                 @ ''tool_args: {a: 2, b: 3}''"

definition add_decision :: "(pyscalar \<times> pyval) list" where
  "add_decision =
     [(PStr ''action'', PScalar (PStr ''tool'')),
      (PStr ''tool_name'', PScalar (PStr ''add'')),
      (PStr ''tool_args'', PDict [(PStr ''a'', PScalar (PInt 2)), (PStr ''b'', PScalar (PInt 3))])]"

definition seven_block :: string where
  "seven_block = ''action: tool'' @ newline @ ''tool_name: add'' @ newline @ ''tool_args: 7''"

definition seven_decision :: "(pyscalar \<times> pyval) list" where
  "seven_decision =
     [(PStr ''action'', PScalar (PStr ''tool'')),
      (PStr ''tool_name'', PScalar (PStr ''add'')),
      (PStr ''tool_args'', PScalar (PInt 7))]"

definition mul_block :: string where
  "mul_block = ''action: tool'' @ newline @ ''tool_name: mul''"

definition mul_decision :: "(pyscalar \<times> pyval) list" where
  "mul_decision =
     [(PStr ''action'', PScalar (PStr ''tool'')),
      (PStr ''tool_name'', PScalar (PStr ''mul''))]"

definition fail_block :: string where
  "fail_block = ''action: tool'' @ newline @ ''tool_name: fail'' @ newline
                  @ ''tool_args: {reason: no data, code: 3}''"

definition fail_decision :: "(pyscalar \<times> pyval) list" where
  "fail_decision =
     [(PStr ''action'', PScalar (PStr ''tool'')),
      (PStr ''tool_name'', PScalar (PStr ''fail'')),
      (PStr ''tool_args'',
        PDict [(PStr ''reason'', PScalar (PStr ''no data'')), (PStr ''code'', PScalar (PInt 3))])]"

definition quit_block :: string where
  "quit_block = ''action: tool'' @ newline @ ''tool_name: quit''"

definition quit_decision :: "(pyscalar \<times> pyval) list" where
  "quit_decision =
     [(PStr ''action'', PScalar (PStr ''tool'')),
      (PStr ''tool_name'', PScalar (PStr ''quit''))]"

definition answer_block :: string where
  "answer_block = ''action: answer'' @ newline @ ''final_answer: five''"

definition answer_decision :: "(pyscalar \<times> pyval) list" where
  "answer_decision =
     [(PStr ''action'', PScalar (PStr ''answer'')),
      (PStr ''final_answer'', PScalar (PStr ''five''))]"

definition empty_block :: string where
  "empty_block = ''action: answer'' @ newline @ ''final_answer: '' @ [CHR 0x27, CHR 0x27]"

definition empty_decision :: "(pyscalar \<times> pyval) list" where
  "empty_decision =
     [(PStr ''action'', PScalar (PStr ''answer'')),
      (PStr ''final_answer'', PScalar (PStr []))]"

definition finish_block :: string where
  "finish_block = ''action: finish'' @ newline @ ''final_answer: five''"

definition finish_decision :: "(pyscalar \<times> pyval) list" where
  "finish_decision =
     [(PStr ''action'', PScalar (PStr ''finish'')),
      (PStr ''final_answer'', PScalar (PStr ''five''))]"

definition capital_block :: string where
  "capital_block = ''action: Tool'' @ newline @ ''tool_name: add''"

definition capital_decision :: "(pyscalar \<times> pyval) list" where
  "capital_decision =
     [(PStr ''action'', PScalar (PStr ''Tool'')),
      (PStr ''tool_name'', PScalar (PStr ''add''))]"

definition number_block :: string where
  "number_block = ''action: 1'' @ newline @ ''final_answer: five''"

definition number_decision :: "(pyscalar \<times> pyval) list" where
  "number_decision =
     [(PStr ''action'', PScalar (PInt 1)),
      (PStr ''final_answer'', PScalar (PStr ''five''))]"

definition five_block :: string where
  "five_block = ''action: answer'' @ newline @ ''final_answer: '' @ [CHR 0x22] @ ''5'' @ [CHR 0x22]"

definition five_decision :: "(pyscalar \<times> pyval) list" where
  "five_decision =
     [(PStr ''action'', PScalar (PStr ''answer'')),
      (PStr ''final_answer'', PScalar (PStr ''5''))]"

definition yaml_table :: "(string \<times> pyval) list" where
  "yaml_table =
     [(add_block, PDict add_decision), (seven_block, PDict seven_decision),
      (mul_block, PDict mul_decision), (fail_block, PDict fail_decision),
      (quit_block, PDict quit_decision), (answer_block, PDict answer_decision),
      (empty_block, PDict empty_decision), (finish_block, PDict finish_decision),
      (capital_block, PDict capital_decision), (number_block, PDict number_decision),
      (five_block, PDict five_decision)]"

definition test_loader :: yaml_loader where
  "test_loader s =
     (case map_of yaml_table s of Some v \<Rightarrow> Inr v | None \<Rightarrow> Inl (YAMLError s))"

text \<open>A reply of the model with a fenced block, and a model that gives its replies in order.\<close>

definition fenced_reply :: "string \<Rightarrow> string" where
  "fenced_reply body =
     ''Decision:'' @ newline @ ''```yaml'' @ newline @ body @ newline @ ''```'' @ newline"

definition scripted :: "string list \<Rightarrow> nat \<Rightarrow> llm" where
  "scripted replies k prompt =
     (if k < length replies then Inr (replies ! k) else Inl (LLMError ''no reply''))"

text \<open>
  The context of a run of the test agent on a first query, the state of the flow at its
  start, and the state after one decision \<open>d\<close> has been stored.
\<close>

definition test_shared :: shared where
  "test_shared =
     initial_shared (append_message test_agent ''user'' (PScalar (PStr ''What is 2+3?'')))
       ''What is 2+3?''"

definition test_start :: world where
  "test_start = \<lparr>model_calls = 0, node_steps = 0, ctx = test_shared\<rparr>"

definition test_world :: "pyval \<Rightarrow> world" where
  "test_world d =
     \<lparr>model_calls = 1, node_steps = 1, ctx = test_shared\<lparr>last_decision := Some d\<rparr>\<rparr>"

text \<open>
  Two recorded tool calls, an agent with fifty messages in its history, and one with
  twenty-one.
\<close>

definition test_calls :: "tool_call_record list" where
  "test_calls =
     [\<lparr>tc_tool = PStr ''add'', tc_args = PDict [], tc_result = ''5''\<rparr>,
      \<lparr>tc_tool = PStr ''fail'', tc_args = PDict [],
       tc_result = ''Error calling fail: no data''\<rparr>]"

definition long_agent :: agent where
  "long_agent =
     test_agent\<lparr>self_conversation_history :=
       map (\<lambda>i. \<lparr>role = (if even i then ''user'' else ''assistant''),
                  content = PScalar (PInt (int i))\<rparr>) [0..<50]\<rparr>"

definition letters_agent :: agent where
  "letters_agent =
     test_agent\<lparr>self_conversation_history :=
       map (\<lambda>(r, c). \<lparr>role = r, content = PScalar (PStr [c])\<rparr>)
         (zip (concat (replicate 11 [''user'', ''assistant''])) ''abcdefghijklmnopqrstu'')\<rparr>"

text \<open>The state of the test run after \<^verbatim>\<open>add(a=2, b=3)\<close> has been decided and called.\<close>

definition add_record :: tool_call_record where
  "add_record =
     \<lparr>tc_tool = PStr ''add'',
      tc_args = PDict [(PStr ''a'', PScalar (PInt 2)), (PStr ''b'', PScalar (PInt 3))],
      tc_result = ''5''\<rparr>"

definition add_done :: world where
  "add_done =
     \<lparr>model_calls = 1, node_steps = 2,
      ctx = test_shared\<lparr>last_decision := Some (PDict add_decision), tool_calls := [add_record]\<rparr>\<rparr>"

section \<open>Properties of the string operations\<close>

lemma split_at_no_sep:
  "\<not> (\<exists>pre post. s = pre @ sep @ post) \<Longrightarrow> split_at sep cur s = [cur @ s]"
proof (induction s arbitrary: cur)
  case Nil
  show ?case by (simp add: split_at.simps)
next
  case (Cons c cs)
  have nomatch: "take (length sep) (c # cs) \<noteq> sep"
  proof
    assume "take (length sep) (c # cs) = sep"
    then have "c # cs = [] @ sep @ drop (length sep) (c # cs)"
      by (metis append_Nil append_take_drop_id)
    with Cons.prems show False by blast
  qed
  have "\<not> (\<exists>pre post. cs = pre @ sep @ post)"
  proof
    assume "\<exists>pre post. cs = pre @ sep @ post"
    then obtain pre post where "cs = pre @ sep @ post" by blast
    then have "c # cs = (c # pre) @ sep @ post" by simp
    with Cons.prems show False by blast
  qed
  then have "split_at sep (cur @ [c]) cs = [(cur @ [c]) @ cs]" by (rule Cons.IH)
  with nomatch show ?case by (subst split_at.simps) simp
qed

lemma split_at_nonempty: "split_at sep cur s \<noteq> []"
proof (induction sep cur s rule: split_at.induct)
  case (1 sep cur s)
  then show ?case by (subst split_at.simps) auto
qed

lemma split_at_sep:
  "sep \<noteq> [] \<Longrightarrow> s = pre @ sep @ post \<Longrightarrow> 2 \<le> length (split_at sep cur s)"
proof (induction s arbitrary: cur pre)
  case Nil
  then show ?case by simp
next
  case (Cons c cs)
  show ?case
  proof (cases "take (length sep) (c # cs) = sep")
    case True
    have "split_at sep [] (drop (length sep) (c # cs)) \<noteq> []" by (rule split_at_nonempty)
    then have "1 \<le> length (split_at sep [] (drop (length sep) (c # cs)))"
      by (cases "split_at sep [] (drop (length sep) (c # cs))") auto
    with True Cons.prems(1) show ?thesis by (subst split_at.simps) simp
  next
    case False
    have "pre \<noteq> []"
    proof
      assume "pre = []"
      with Cons.prems(2) have "take (length sep) (c # cs) = sep" by simp
      with False show False by simp
    qed
    then obtain pre' where pre: "pre = c # pre'" and cs: "cs = pre' @ sep @ post"
      using Cons.prems(2) by (cases pre) auto
    have "2 \<le> length (split_at sep (cur @ [c]) cs)"
      using Cons.IH [OF Cons.prems(1) cs] .
    with False show ?thesis by (subst split_at.simps) simp
  qed
qed

lemma extract_yaml_IndexError_iff:
  "extract_yaml response = Inl IndexError \<longleftrightarrow> \<not> (\<exists>pre post. response = pre @ ''```yaml'' @ post)"
proof
  assume l: "extract_yaml response = Inl IndexError"
  show "\<not> (\<exists>pre post. response = pre @ ''```yaml'' @ post)"
  proof
    assume "\<exists>pre post. response = pre @ ''```yaml'' @ post"
    then obtain pre post where "response = pre @ ''```yaml'' @ post" by blast
    then have "2 \<le> length (split_at ''```yaml'' [] response)"
      by (intro split_at_sep) auto
    moreover have "\<And>x. 0 < length (split_at ''```'' [] x)"
      using split_at_nonempty by auto
    ultimately show False using l
      by (auto simp: extract_yaml_def py_index_def py_split_def split: sum.splits if_splits)
  qed
next
  assume "\<not> (\<exists>pre post. response = pre @ ''```yaml'' @ post)"
  then have "split_at ''```yaml'' [] response = [response]"
    using split_at_no_sep [of response "''```yaml''" "[]"] by simp
  then show "extract_yaml response = Inl IndexError"
    by (simp add: extract_yaml_def py_index_def py_split_def)
qed

lemma no_backtick_no_fence:
  "CHR 0x60 \<notin> set response \<Longrightarrow> \<not> (\<exists>pre post. response = pre @ ''```yaml'' @ post)"
  by auto

lemma extract_yaml_fenced:
  assumes "response = pre @ ''```yaml'' @ post"
  shows "\<exists>yaml_str. extract_yaml response = Inr yaml_str"
proof -
  have "2 \<le> length (split_at ''```yaml'' [] response)"
    using assms by (intro split_at_sep) auto
  moreover have "\<And>x. 0 < length (split_at ''```'' [] x)"
    using split_at_nonempty by auto
  ultimately show ?thesis
    by (simp add: extract_yaml_def py_index_def py_split_def)
qed

lemma slice_last_suffix: "\<exists>older. xs = older @ slice_last k xs"
  by (metis append_take_drop_id slice_last_def)

lemma slice_last_length: "length (slice_last k xs) = min (length xs) k"
  by (simp add: slice_last_def)

lemma slice_last_Nil: "slice_last k xs = [] \<longleftrightarrow> xs = [] \<or> k = 0"
  by (cases xs; cases k) (auto simp: slice_last_def)

section \<open>Steps of the flow\<close>

lemma node_run_decide_no_fence:
  assumes "call_llm (model_calls w) (build_prompt (DecideAction_prep (ctx w))) = Inr response"
    and "\<not> (\<exists>pre post. response = pre @ ''```yaml'' @ post)"
  shows "node_run lg call_llm safe_load DecideAction w =
           (Inl IndexError,
            w\<lparr>node_steps := Suc (node_steps w), model_calls := Suc (model_calls w)\<rparr>)"
proof -
  have "extract_yaml response = Inl IndexError"
    using assms(2) by (simp add: extract_yaml_IndexError_iff)
  with assms(1) show ?thesis
    by (simp add: node_run_def DecideAction_exec_def Let_def)
qed

lemma DecideAction_post_tool:
  "map_of kvs (PStr ''action'') = Some (PScalar (PStr ''tool'')) \<Longrightarrow>
     DecideAction_post lg sh (PDict kvs) =
       (Inr ''tool'', sh\<lparr>last_decision := Some (PDict kvs)\<rparr>)"
  by (simp add: DecideAction_post_def logger_decision_def)

lemma node_run_decide_tool:
  assumes "DecideAction_exec (call_llm (model_calls w)) safe_load (DecideAction_prep (ctx w))
             = Inr (PDict kvs)"
    and "map_of kvs (PStr ''action'') = Some (PScalar (PStr ''tool''))"
  shows "node_run lg call_llm safe_load DecideAction w =
           (Inr ''tool'',
            w\<lparr>node_steps := Suc (node_steps w), model_calls := Suc (model_calls w),
              ctx := (ctx w)\<lparr>last_decision := Some (PDict kvs)\<rparr>\<rparr>)"
  using assms by (simp add: node_run_def DecideAction_post_tool Let_def)

lemma node_run_decide_answer:
  assumes "DecideAction_exec (call_llm (model_calls w)) safe_load (DecideAction_prep (ctx w))
             = Inr (PDict kvs)"
    and "map_of kvs (PStr ''action'') = Some act"
    and "act \<noteq> PScalar (PStr ''tool'')"
    and "\<not> enabled lg \<or> is_str act"
    and "map_of kvs (PStr ''final_answer'') = Some v"
  shows "node_run lg call_llm safe_load DecideAction w =
           (Inr ''answer'',
            w\<lparr>node_steps := Suc (node_steps w), model_calls := Suc (model_calls w),
              ctx := (ctx w)\<lparr>last_decision := Some (PDict kvs), final_answer := Some v\<rparr>\<rparr>)"
  using assms by (auto simp: node_run_def DecideAction_post_def logger_decision_def Let_def)


lemma node_run_ProvideAnswer:
  "node_run lg call_llm safe_load ProvideAnswer w =
     (Inr ''done'', w\<lparr>node_steps := Suc (node_steps w)\<rparr>)"
  by (simp add: node_run_def ProvideAnswer_post_def Let_def)

lemma CallTool_prep_found:
  assumes "last_decision sh = Some (PDict kvs)"
    and "map_of kvs (PStr ''tool_name'') = Some (PScalar (PStr name))"
    and "map_of (tool_registry sh) name = Some info"
  shows "CallTool_prep sh =
           Inr (Some (ti_function info), PStr name,
                case map_of kvs (PStr ''tool_args'') of None \<Rightarrow> PDict [] | Some v \<Rightarrow> v)"
  using assms by (simp add: CallTool_prep_def split: option.splits)

lemma CallTool_prep_not_found:
  assumes "last_decision sh = Some (PDict kvs)"
    and "map_of kvs (PStr ''tool_name'') = Some (PScalar name)"
    and "registry_get (tool_registry sh) name = None"
  shows "CallTool_prep sh =
           Inr (None, name,
                case map_of kvs (PStr ''tool_args'') of None \<Rightarrow> PDict [] | Some v \<Rightarrow> v)"
  using assms by (simp add: CallTool_prep_def split: option.splits)

lemma node_run_CallTool:
  assumes "CallTool_prep (ctx w) = Inr (tool_func, tool_name, tool_args)"
    and "CallTool_exec (tool_func, tool_name, tool_args) = Inr result"
  shows "node_run lg call_llm safe_load CallTool w =
           (Inr ''decide'',
            w\<lparr>node_steps := Suc (node_steps w),
              ctx := (ctx w)\<lparr>tool_calls := tool_calls (ctx w) @
                       [\<lparr>tc_tool = tool_name, tc_args = tool_args, tc_result = result\<rparr>]\<rparr>\<rparr>)"
  using assms by (simp add: node_run_def CallTool_post_def Let_def)


lemma flow_orch_raise:
  "node_run lg call_llm safe_load nd w = (Inl e, w') \<Longrightarrow>
     flow_orch lg call_llm safe_load nd w = Some (Inl e, w')"
  by (subst flow_orch.simps) simp

lemma flow_orch_step:
  "node_run lg call_llm safe_load nd w = (Inr action, w') \<Longrightarrow>
   successors nd action = Some nxt \<Longrightarrow>
     flow_orch lg call_llm safe_load nd w = flow_orch lg call_llm safe_load nxt w'"
  by (subst flow_orch.simps) simp

lemma flow_orch_end:
  "node_run lg call_llm safe_load nd w = (Inr action, w') \<Longrightarrow>
   successors nd action = None \<Longrightarrow>
     flow_orch lg call_llm safe_load nd w = Some (Inr action, w')"
  by (subst flow_orch.simps) simp

lemma flow_steps_orch:
  "flow_steps lg call_llm safe_load k c = Some c' \<Longrightarrow>
     flow_orch lg call_llm safe_load (fst c) (snd c) =
     flow_orch lg call_llm safe_load (fst c') (snd c')"
proof (induction k arbitrary: c)
  case 0
  then show ?case by simp
next
  case (Suc k)
  obtain r w' where nr: "node_run lg call_llm safe_load (fst c) (snd c) = (r, w')"
    by (cases "node_run lg call_llm safe_load (fst c) (snd c)")
  with Suc.prems obtain action nxt where
    r: "r = Inr action" and sc: "successors (fst c) action = Some nxt"
    and rest: "flow_steps lg call_llm safe_load k (nxt, w') = Some c'"
    by (auto split: sum.splits option.splits)
  have "flow_orch lg call_llm safe_load (fst c) (snd c) = flow_orch lg call_llm safe_load nxt w'"
    using nr r sc by (simp add: flow_orch_step)
  with Suc.IH [OF rest] show ?case by simp
qed

lemma flow_orch_answer:
  assumes "DecideAction_exec (call_llm (model_calls w)) safe_load (DecideAction_prep (ctx w))
             = Inr (PDict kvs)"
    and "map_of kvs (PStr ''action'') = Some act"
    and "act \<noteq> PScalar (PStr ''tool'')"
    and "\<not> enabled lg \<or> is_str act"
    and "map_of kvs (PStr ''final_answer'') = Some v"
  shows "flow_orch lg call_llm safe_load DecideAction w =
           Some (Inr ''done'',
            w\<lparr>node_steps := Suc (Suc (node_steps w)), model_calls := Suc (model_calls w),
              ctx := (ctx w)\<lparr>last_decision := Some (PDict kvs), final_answer := Some v\<rparr>\<rparr>)"
proof -
  let ?w1 = "w\<lparr>node_steps := Suc (node_steps w), model_calls := Suc (model_calls w),
              ctx := (ctx w)\<lparr>last_decision := Some (PDict kvs), final_answer := Some v\<rparr>\<rparr>"
  have 1: "node_run lg call_llm safe_load DecideAction w = (Inr ''answer'', ?w1)"
    using assms by (intro node_run_decide_answer [where call_llm = call_llm and w = w]) auto
  have 2: "flow_orch lg call_llm safe_load DecideAction w =
             flow_orch lg call_llm safe_load ProvideAnswer ?w1"
    using 1 by (rule flow_orch_step) simp
  have 3: "flow_orch lg call_llm safe_load ProvideAnswer ?w1 =
             Some (Inr ''done'', ?w1\<lparr>node_steps := Suc (node_steps ?w1)\<rparr>)"
    by (rule flow_orch_end) (simp_all add: node_run_ProvideAnswer)
  from 2 3 show ?thesis by simp
qed

lemma run_with_raise:
  "flow (initial_shared (append_message a ''user'' (PScalar (PStr q))) q) = Some (Inl e, sh') \<Longrightarrow>
     run_with flow a q = Some (Inl e, append_message a ''user'' (PScalar (PStr q)))"
  by (simp add: run_with_def Let_def)

lemma flow_run_steps:
  assumes "flow_steps lg call_llm safe_load k
             (flow_start, \<lparr>model_calls = 0, node_steps = 0, ctx = sh\<rparr>) = Some (nd, w)"
    and "flow_orch lg call_llm safe_load nd w = Some (r, w')"
  shows "flow_run lg call_llm safe_load sh = Some (r, ctx w')"
  using flow_steps_orch [OF assms(1)] assms(2) by (simp add: flow_run_def)

section \<open>Evaluating the test data\<close>

lemma extract_blocks:
  "extract_yaml (fenced_reply add_block) = Inr add_block"
  "extract_yaml (fenced_reply seven_block) = Inr seven_block"
  "extract_yaml (fenced_reply mul_block) = Inr mul_block"
  "extract_yaml (fenced_reply fail_block) = Inr fail_block"
  "extract_yaml (fenced_reply quit_block) = Inr quit_block"
  "extract_yaml (fenced_reply answer_block) = Inr answer_block"
  "extract_yaml (fenced_reply empty_block) = Inr empty_block"
  "extract_yaml (fenced_reply finish_block) = Inr finish_block"
  "extract_yaml (fenced_reply capital_block) = Inr capital_block"
  "extract_yaml (fenced_reply number_block) = Inr number_block"
  "extract_yaml (fenced_reply five_block) = Inr five_block"
  by code_simp+

lemma load_blocks:
  "test_loader add_block = Inr (PDict add_decision)"
  "test_loader seven_block = Inr (PDict seven_decision)"
  "test_loader mul_block = Inr (PDict mul_decision)"
  "test_loader fail_block = Inr (PDict fail_decision)"
  "test_loader quit_block = Inr (PDict quit_decision)"
  "test_loader answer_block = Inr (PDict answer_decision)"
  "test_loader empty_block = Inr (PDict empty_decision)"
  "test_loader finish_block = Inr (PDict finish_decision)"
  "test_loader capital_block = Inr (PDict capital_decision)"
  "test_loader number_block = Inr (PDict number_decision)"
  "test_loader five_block = Inr (PDict five_decision)"
  by code_simp+

lemma test_exec:
  assumes "k < length replies" and "replies ! k = fenced_reply block"
    and "extract_yaml (fenced_reply block) = Inr block"
    and "test_loader block = Inr d"
  shows "DecideAction_exec (scripted replies k) test_loader inputs = Inr d"
  using assms by (simp add: DecideAction_exec_def scripted_def Let_def)

lemma test_registry:
  "self_tool_registry test_agent =
     [(''add'', register_tool add_tool), (''fail'', register_tool fail_tool),
      (''quit'', register_tool quit_tool)]"
  by (simp add: test_agent_def Agent_init_def register_tool_def add_tool_def fail_tool_def
        quit_tool_def Let_def)

lemma test_shared_simps:
  "tool_registry test_shared =
     [(''add'', register_tool add_tool), (''fail'', register_tool fail_tool),
      (''quit'', register_tool quit_tool)]"
  "tool_calls test_shared = []"
  "final_answer test_shared = None"
  by (simp_all add: test_shared_def initial_shared_def append_message_def test_registry)

lemma test_world_simps:
  "tool_registry (ctx (test_world d)) =
     [(''add'', register_tool add_tool), (''fail'', register_tool fail_tool),
      (''quit'', register_tool quit_tool)]"
  "last_decision (ctx (test_world d)) = Some d"
  "tool_calls (ctx (test_world d)) = []"
  "node_steps (test_world d) = 1"
  by (simp_all add: test_world_def test_shared_simps)

lemma test_tools_simps:
  "ti_function (register_tool add_tool) = add_call"
  "ti_function (register_tool fail_tool) = fail_call"
  "ti_function (register_tool quit_tool) = quit_call"
  by (simp_all add: register_tool_def add_tool_def fail_tool_def quit_tool_def Let_def)

lemma str_int_5: "str_int 5 = ''5''"
  by code_simp

lemma str_int_7: "str_int 7 = ''7''"
  by code_simp

lemma upper_roles:
  "py_upper ''user'' = ''USER''" "py_upper ''assistant'' = ''ASSISTANT''"
  by code_simp+

lemma test_add_steps:
  assumes "replies \<noteq> []" and "replies ! 0 = fenced_reply add_block"
  shows "flow_steps lg (scripted replies) test_loader 2 (DecideAction, test_start)
           = Some (DecideAction, add_done)"
proof -
  let ?w1 = "test_start\<lparr>node_steps := Suc (node_steps test_start),
               model_calls := Suc (model_calls test_start),
               ctx := (ctx test_start)\<lparr>last_decision := Some (PDict add_decision)\<rparr>\<rparr>"
  have e: "DecideAction_exec (scripted replies (model_calls test_start)) test_loader
             (DecideAction_prep (ctx test_start)) = Inr (PDict add_decision)"
    using assms by (intro test_exec [where block = add_block])
      (simp_all add: test_start_def extract_blocks load_blocks)
  have 1: "node_run lg (scripted replies) test_loader DecideAction test_start = (Inr ''tool'', ?w1)"
    by (rule node_run_decide_tool [where call_llm = "scripted replies", OF e])
       (simp add: add_decision_def)
  have p: "CallTool_prep (ctx ?w1) =
             Inr (Some add_call, PStr ''add'',
                  PDict [(PStr ''a'', PScalar (PInt 2)), (PStr ''b'', PScalar (PInt 3))])"
    by (simp add: CallTool_prep_def test_start_def test_shared_simps test_tools_simps
          add_decision_def)
  have x: "CallTool_exec (Some add_call, PStr ''add'',
             PDict [(PStr ''a'', PScalar (PInt 2)), (PStr ''b'', PScalar (PInt 3))]) = Inr ''5''"
    by (simp add: CallTool_exec_def invoke_def str_int_5)
  have 2: "node_run lg (scripted replies) test_loader CallTool ?w1 = (Inr ''decide'', add_done)"
    using node_run_CallTool [OF p x, of lg "scripted replies" test_loader]
    by (simp add: add_done_def add_record_def test_start_def test_shared_simps)
  show ?thesis
    by (simp add: numeral_2_eq_2 1 2)
qed

lemma test_decisions:
  "map_of add_decision (PStr ''tool_name'') = Some (PScalar (PStr ''add''))"
  "(case map_of add_decision (PStr ''tool_args'') of None \<Rightarrow> PDict [] | Some v \<Rightarrow> v)
     = PDict [(PStr ''a'', PScalar (PInt 2)), (PStr ''b'', PScalar (PInt 3))]"
  "map_of seven_decision (PStr ''tool_name'') = Some (PScalar (PStr ''add''))"
  "(case map_of seven_decision (PStr ''tool_args'') of None \<Rightarrow> PDict [] | Some v \<Rightarrow> v)
     = PScalar (PInt 7)"
  "map_of fail_decision (PStr ''tool_name'') = Some (PScalar (PStr ''fail''))"
  "(case map_of fail_decision (PStr ''tool_args'') of None \<Rightarrow> PDict [] | Some v \<Rightarrow> v)
     = PDict [(PStr ''reason'', PScalar (PStr ''no data'')), (PStr ''code'', PScalar (PInt 3))]"
  "map_of quit_decision (PStr ''tool_name'') = Some (PScalar (PStr ''quit''))"
  "(case map_of quit_decision (PStr ''tool_args'') of None \<Rightarrow> PDict [] | Some v \<Rightarrow> v) = PDict []"
  "map_of mul_decision (PStr ''action'') = Some (PScalar (PStr ''tool''))"
  "map_of mul_decision (PStr ''tool_name'') = Some (PScalar (PStr ''mul''))"
  "(case map_of mul_decision (PStr ''tool_args'') of None \<Rightarrow> PDict [] | Some v \<Rightarrow> v) = PDict []"
  by (simp_all add: add_decision_def seven_decision_def fail_decision_def quit_decision_def
        mul_decision_def)

lemma test_registry_lookup:
  "map_of (tool_registry (ctx (test_world d))) ''add'' = Some (register_tool add_tool)"
  "map_of (tool_registry (ctx (test_world d))) ''fail'' = Some (register_tool fail_tool)"
  "map_of (tool_registry (ctx (test_world d))) ''quit'' = Some (register_tool quit_tool)"
  "registry_get (tool_registry (ctx (test_world d))) (PStr ''mul'') = None"
  by (simp_all add: test_world_simps)

lemma test_invoke:
  "invoke (ti_function (register_tool fail_tool))
      (PDict [(PStr ''reason'', PScalar (PStr ''no data'')), (PStr ''code'', PScalar (PInt 3))])
     = Raises ''no data''"
  "invoke (ti_function (register_tool quit_tool)) (PDict []) = Exits ''bye''"
  "ti_function (register_tool add_tool)
      (Kwargs [(PStr ''a'', PScalar (PInt 2)), (PStr ''b'', PScalar (PInt 3))]) = Returns ''5''"
  "ti_function (register_tool add_tool) (Positional (PScalar (PInt 7))) = Returns ''7''"
  by (simp_all add: invoke_def test_tools_simps str_int_5 str_int_7)

section \<open>A reply without a fenced block\<close>

text \<open>
  C1, in the form the code satisfies.  Whenever the flow asks the model for a decision,
  for the first time or after any number of tool calls, and the reply does not contain the
  marker \<^verbatim>\<open>```yaml\<close>, the index \<^verbatim>\<open>[1]\<close> into the split reply raises \<^verbatim>\<open>IndexError\<close>; the
  program has no \<^verbatim>\<open>DecisionParseError\<close>.  The step changes nothing in the context, so no
  tool call is recorded by it, and the list of tool calls is empty when the reply is the
  first one.  The exception leaves the flow and \<^verbatim>\<open>run\<close>; the agent has the query appended
  to its history and nothing else changed.
\<close>

theorem missing_fence_raises_IndexError:
  assumes "sh0 = initial_shared (append_message a ''user'' (PScalar (PStr q))) q"
    and "flow_steps lg call_llm safe_load k
           (flow_start, \<lparr>model_calls = 0, node_steps = 0, ctx = sh0\<rparr>) = Some (DecideAction, w)"
    and "call_llm (model_calls w) (build_prompt (DecideAction_prep (ctx w))) = Inr response"
    and "\<not> (\<exists>pre post. response = pre @ ''```yaml'' @ post)"
  shows "node_run lg call_llm safe_load DecideAction w =
           (Inl IndexError,
            w\<lparr>node_steps := Suc (node_steps w), model_calls := Suc (model_calls w)\<rparr>)
       \<and> flow_run lg call_llm safe_load sh0 = Some (Inl IndexError, ctx w)
       \<and> (k = 0 \<longrightarrow> tool_calls (ctx w) = [])
       \<and> run lg call_llm safe_load a q =
           Some (Inl IndexError, append_message a ''user'' (PScalar (PStr q)))"
proof -
  let ?w' = "w\<lparr>node_steps := Suc (node_steps w), model_calls := Suc (model_calls w)\<rparr>"
  have nr: "node_run lg call_llm safe_load DecideAction w = (Inl IndexError, ?w')"
    using assms(3,4) by (rule node_run_decide_no_fence)
  then have "flow_orch lg call_llm safe_load DecideAction w = Some (Inl IndexError, ?w')"
    by (rule flow_orch_raise)
  from flow_run_steps [OF assms(2) this]
  have fr: "flow_run lg call_llm safe_load sh0 = Some (Inl IndexError, ctx w)"
    by simp
  have first: "k = 0 \<longrightarrow> tool_calls (ctx w) = []"
    using assms(1,2) by (auto simp: initial_shared_def)
  have "run lg call_llm safe_load a q =
          Some (Inl IndexError, append_message a ''user'' (PScalar (PStr q)))"
    unfolding run_def using fr assms(1) by (intro run_with_raise) simp
  with nr fr first show ?thesis by simp
qed

theorem missing_fence_raises_IndexError_witness:
  "flow_steps quiet (scripted [fenced_reply add_block, ''The answer is 5.'']) test_loader 2
       (flow_start, \<lparr>model_calls = 0, node_steps = 0, ctx = test_shared\<rparr>)
     = Some (DecideAction, add_done)
   \<and> \<not> (\<exists>pre post. ''The answer is 5.'' = pre @ ''```yaml'' @ post)
   \<and> flow_run quiet (scripted [fenced_reply add_block, ''The answer is 5.'']) test_loader
        test_shared = Some (Inl IndexError, ctx add_done)
   \<and> tool_calls (ctx add_done) = [add_record]
   \<and> run quiet (scripted [fenced_reply add_block, ''The answer is 5.'']) test_loader
        test_agent ''What is 2+3?''
     = Some (Inl IndexError,
         append_message test_agent ''user'' (PScalar (PStr ''What is 2+3?'')))"
proof -
  let ?llm = "scripted [fenced_reply add_block, ''The answer is 5.'']"
  have st: "flow_steps quiet ?llm test_loader 2
       (flow_start, \<lparr>model_calls = 0, node_steps = 0, ctx = test_shared\<rparr>)
     = Some (DecideAction, add_done)"
    using test_add_steps [of "[fenced_reply add_block, ''The answer is 5.'']" quiet]
    by (simp add: flow_start_def test_start_def)
  have rp: "?llm (model_calls add_done) (build_prompt (DecideAction_prep (ctx add_done)))
              = Inr ''The answer is 5.''"
    by (simp add: scripted_def add_done_def)
  have nf: "\<not> (\<exists>pre post. ''The answer is 5.'' = pre @ ''```yaml'' @ post)"
    by (rule no_backtick_no_fence) simp
  have tc: "tool_calls (ctx add_done) = [add_record]"
    by (simp add: add_done_def)
  show ?thesis
    using missing_fence_raises_IndexError [where lg = quiet and call_llm = ?llm
        and safe_load = test_loader and a = test_agent and q = "''What is 2+3?''"
        and k = 2 and w = add_done and response = "''The answer is 5.''",
        OF test_shared_def st rp nf] st nf tc
    by simp
qed

text \<open>
  C1 as stated has \<^verbatim>\<open>run\<close> raise a \<^verbatim>\<open>DecisionParseError\<close>.  On a first reply without a
  fenced block the exception that leaves \<^verbatim>\<open>run\<close> is the \<^verbatim>\<open>IndexError\<close> of the subscript.
\<close>

theorem missing_fence_counterexample:
  "map_option fst (run quiet (scripted [''I do not know.'']) test_loader
        test_agent ''What is 2+3?'') = Some (Inl IndexError)"
proof -
  have nf: "\<not> (\<exists>pre post. ''I do not know.'' = pre @ ''```yaml'' @ post)"
    by (rule no_backtick_no_fence) simp
  have "node_run quiet (scripted [''I do not know.'']) test_loader DecideAction w
          = (Inl IndexError,
             w\<lparr>node_steps := Suc (node_steps w), model_calls := Suc (model_calls w)\<rparr>)"
    if "model_calls w = 0" for w
    using that nf by (intro node_run_decide_no_fence) (simp_all add: scripted_def)
  then show ?thesis
    by (simp add: run_def run_with_def flow_run_def flow_start_def flow_orch_raise Let_def)
qed

section \<open>The tool step\<close>




text \<open>
  C3, in the form the code satisfies.  A decision with action \<^verbatim>\<open>tool\<close> whose
  \<^verbatim>\<open>tool_name\<close> is a string (or another hashable value) that is not a key of the registry
  is routed to \<^verbatim>\<open>CallTool\<close>; the step raises nothing, appends exactly one record, whose
  result is the string \<^verbatim>\<open>Error: Tool '<name>' not found\<close>, and leads back to the
  decision node.
\<close>

theorem unknown_tool_recorded:
  assumes "last_decision (ctx w) = Some (PDict kvs)"
    and "map_of kvs (PStr ''action'') = Some (PScalar (PStr ''tool''))"
    and "map_of kvs (PStr ''tool_name'') = Some (PScalar name)"
    and "registry_get (tool_registry (ctx w)) name = None"
    and "tool_args = (case map_of kvs (PStr ''tool_args'') of None \<Rightarrow> PDict [] | Some v \<Rightarrow> v)"
  shows "fst (DecideAction_post lg sh (PDict kvs)) = Inr ''tool''
       \<and> successors DecideAction ''tool'' = Some CallTool
       \<and> node_run lg call_llm safe_load CallTool w =
           (Inr ''decide'',
            w\<lparr>node_steps := Suc (node_steps w),
              ctx := (ctx w)\<lparr>tool_calls := tool_calls (ctx w) @
                [\<lparr>tc_tool = name, tc_args = tool_args,
                  tc_result = ''Error: Tool '' @ [CHR 0x27] @ str_scalar name @ [CHR 0x27]
                                @ '' not found''\<rparr>]\<rparr>\<rparr>)
       \<and> successors CallTool ''decide'' = Some DecideAction"
proof -
  have p: "CallTool_prep (ctx w) = Inr (None, name, tool_args)"
    using assms(1,3,4,5) by (simp add: CallTool_prep_not_found)
  have e: "CallTool_exec (None, name, tool_args) =
             Inr (''Error: Tool '' @ [CHR 0x27] @ str_scalar name @ [CHR 0x27] @ '' not found'')"
    by (simp add: CallTool_exec_def)
  show ?thesis
    using node_run_CallTool [OF p e, of lg call_llm safe_load] assms(2)
    by (simp add: DecideAction_post_tool)
qed

theorem unknown_tool_recorded_witness:
  "registry_get (tool_registry (ctx (test_world (PDict mul_decision)))) (PStr ''mul'') = None
   \<and> node_run quiet (scripted []) test_loader CallTool (test_world (PDict mul_decision))
     = (Inr ''decide'',
        (test_world (PDict mul_decision))
          \<lparr>node_steps := 2,
           ctx := (ctx (test_world (PDict mul_decision)))
             \<lparr>tool_calls :=
                [\<lparr>tc_tool = PStr ''mul'', tc_args = PDict [],
                  tc_result = ''Error: Tool '' @ [CHR 0x27] @ ''mul'' @ [CHR 0x27]
                                @ '' not found''\<rparr>]\<rparr>\<rparr>)"
proof -
  note t = unknown_tool_recorded [where lg = quiet and call_llm = "scripted []"
      and safe_load = test_loader and sh = test_shared,
      OF test_world_simps(2) test_decisions(9) test_decisions(10) test_registry_lookup(4)
        test_decisions(11) [symmetric]]
  show ?thesis
    using t by (simp add: test_world_simps test_registry_lookup)
qed

text \<open>
  C3 as stated gives the result as \<^verbatim>\<open>Tool '<name>' not found\<close>.  For the unknown tool
  \<^verbatim>\<open>mul\<close> the recorded result is \<^verbatim>\<open>Error: Tool 'mul' not found\<close>, a different string.
\<close>

theorem unknown_tool_counterexample:
  "map tc_result (tool_calls (ctx (snd (node_run quiet (scripted []) test_loader CallTool
       (test_world (PDict mul_decision))))))
     = [''Error: Tool '' @ [CHR 0x27] @ ''mul'' @ [CHR 0x27] @ '' not found'']
   \<and> ''Error: Tool '' @ [CHR 0x27] @ ''mul'' @ [CHR 0x27] @ '' not found''
       \<noteq> ''Tool '' @ [CHR 0x27] @ ''mul'' @ [CHR 0x27] @ '' not found''"
  by (simp add: node_run_def CallTool_prep_def CallTool_exec_def CallTool_post_def Let_def
        test_world_simps mul_decision_def)

text \<open>
  C6.  A registered tool is called with the entries of \<^verbatim>\<open>tool_args\<close> as keyword
  arguments when \<^verbatim>\<open>tool_args\<close> is a dict, and with \<^verbatim>\<open>tool_args\<close> as its one positional
  argument otherwise; when the call returns, the string of the returned value is the
  result of the one record that the step appends.
\<close>

theorem tool_called_by_convention:
  assumes "last_decision (ctx w) = Some (PDict kvs)"
    and "map_of kvs (PStr ''tool_name'') = Some (PScalar (PStr name))"
    and "map_of (tool_registry (ctx w)) name = Some info"
    and "tool_args = (case map_of kvs (PStr ''tool_args'') of None \<Rightarrow> PDict [] | Some v \<Rightarrow> v)"
  shows "(\<forall>kwargs result.
            tool_args = PDict kwargs \<and> ti_function info (Kwargs kwargs) = Returns result \<longrightarrow>
            node_run lg call_llm safe_load CallTool w =
              (Inr ''decide'',
               w\<lparr>node_steps := Suc (node_steps w),
                 ctx := (ctx w)\<lparr>tool_calls := tool_calls (ctx w) @
                   [\<lparr>tc_tool = PStr name, tc_args = tool_args, tc_result = result\<rparr>]\<rparr>\<rparr>))
       \<and> (\<forall>result.
            (\<forall>kwargs. tool_args \<noteq> PDict kwargs)
              \<and> ti_function info (Positional tool_args) = Returns result \<longrightarrow>
            node_run lg call_llm safe_load CallTool w =
              (Inr ''decide'',
               w\<lparr>node_steps := Suc (node_steps w),
                 ctx := (ctx w)\<lparr>tool_calls := tool_calls (ctx w) @
                   [\<lparr>tc_tool = PStr name, tc_args = tool_args, tc_result = result\<rparr>]\<rparr>\<rparr>))"
proof -
  have p: "CallTool_prep (ctx w) = Inr (Some (ti_function info), PStr name, tool_args)"
    using assms by (simp add: CallTool_prep_found)
  have kw: "CallTool_exec (Some (ti_function info), PStr name, tool_args) = Inr result"
    if "tool_args = PDict kwargs" "ti_function info (Kwargs kwargs) = Returns result"
    for kwargs result
    using that by (simp add: CallTool_exec_def invoke_def)
  have pos: "CallTool_exec (Some (ti_function info), PStr name, tool_args) = Inr result"
    if "\<forall>kwargs. tool_args \<noteq> PDict kwargs" "ti_function info (Positional tool_args) = Returns result"
    for result
    using that by (cases tool_args) (simp_all add: CallTool_exec_def invoke_def)
  show ?thesis
    using node_run_CallTool [OF p kw, of _ _ lg call_llm safe_load]
      node_run_CallTool [OF p pos, of _ lg call_llm safe_load]
    by blast
qed

theorem tool_called_by_convention_witness:
  "ti_function (register_tool add_tool)
      (Kwargs [(PStr ''a'', PScalar (PInt 2)), (PStr ''b'', PScalar (PInt 3))]) = Returns ''5''
   \<and> node_run quiet (scripted []) test_loader CallTool (test_world (PDict add_decision))
     = (Inr ''decide'',
        (test_world (PDict add_decision))
          \<lparr>node_steps := 2,
           ctx := (ctx (test_world (PDict add_decision)))\<lparr>tool_calls := [add_record]\<rparr>\<rparr>)
   \<and> ti_function (register_tool add_tool) (Positional (PScalar (PInt 7))) = Returns ''7''
   \<and> node_run quiet (scripted []) test_loader CallTool (test_world (PDict seven_decision))
     = (Inr ''decide'',
        (test_world (PDict seven_decision))
          \<lparr>node_steps := 2,
           ctx := (ctx (test_world (PDict seven_decision)))
             \<lparr>tool_calls :=
                [\<lparr>tc_tool = PStr ''add'', tc_args = PScalar (PInt 7), tc_result = ''7''\<rparr>]\<rparr>\<rparr>)"
proof -
  have not_dict: "\<forall>kwargs. PScalar (PInt 7) \<noteq> PDict kwargs"
    by simp
  note kw = tool_called_by_convention [where lg = quiet and call_llm = "scripted []"
      and safe_load = test_loader,
      OF test_world_simps(2) test_decisions(1) test_registry_lookup(1)
        test_decisions(2) [symmetric],
      THEN conjunct1, rule_format, OF conjI [OF refl test_invoke(3)]]
  note pos = tool_called_by_convention [where lg = quiet and call_llm = "scripted []"
      and safe_load = test_loader,
      OF test_world_simps(2) test_decisions(3) test_registry_lookup(1)
        test_decisions(4) [symmetric],
      THEN conjunct2, rule_format, OF conjI [OF not_dict test_invoke(4)]]
  have 1: "node_run quiet (scripted []) test_loader CallTool (test_world (PDict add_decision))
     = (Inr ''decide'',
        (test_world (PDict add_decision))
          \<lparr>node_steps := 2,
           ctx := (ctx (test_world (PDict add_decision)))\<lparr>tool_calls := [add_record]\<rparr>\<rparr>)"
    using kw by (simp add: test_world_simps add_record_def)
  have 2: "node_run quiet (scripted []) test_loader CallTool (test_world (PDict seven_decision))
     = (Inr ''decide'',
        (test_world (PDict seven_decision))
          \<lparr>node_steps := 2,
           ctx := (ctx (test_world (PDict seven_decision)))
             \<lparr>tool_calls :=
                [\<lparr>tc_tool = PStr ''add'', tc_args = PScalar (PInt 7), tc_result = ''7''\<rparr>]\<rparr>\<rparr>)"
    using pos by (simp add: test_world_simps)
  from 1 2 test_invoke(3,4) show ?thesis by blast
qed

section \<open>A decision that is not a tool call\<close>

lemma run_first_answer:
  assumes "DecideAction_exec (call_llm 0) safe_load
             (DecideAction_prep (initial_shared (append_message a ''user'' (PScalar (PStr q))) q))
             = Inr (PDict kvs)"
    and "map_of kvs (PStr ''action'') = Some act"
    and "act \<noteq> PScalar (PStr ''tool'')"
    and "\<not> enabled lg \<or> is_str act"
    and "map_of kvs (PStr ''final_answer'') = Some v"
  shows "run lg call_llm safe_load a q =
           Some (Inr v, append_message (append_message a ''user'' (PScalar (PStr q))) ''assistant'' v)"
proof -
  let ?sh = "initial_shared (append_message a ''user'' (PScalar (PStr q))) q"
  let ?w = "\<lparr>model_calls = 0, node_steps = 0, ctx = ?sh\<rparr>"
  have "flow_orch lg call_llm safe_load DecideAction ?w =
          Some (Inr ''done'',
            ?w\<lparr>node_steps := Suc (Suc (node_steps ?w)), model_calls := Suc (model_calls ?w),
              ctx := (ctx ?w)\<lparr>last_decision := Some (PDict kvs), final_answer := Some v\<rparr>\<rparr>)"
    using assms by (intro flow_orch_answer [where call_llm = call_llm and w = ?w]) simp_all
  then have "flow_run lg call_llm safe_load ?sh =
          Some (Inr ''done'', ?sh\<lparr>last_decision := Some (PDict kvs), final_answer := Some v\<rparr>)"
    by (simp add: flow_run_def flow_start_def)
  then show ?thesis
    by (simp add: run_def run_with_def Let_def initial_shared_def append_message_def)
qed

text \<open>
  C4, in the form the code satisfies.  When the model's decision has the action
  \<^verbatim>\<open>answer\<close> and a \<^verbatim>\<open>final_answer\<close> field, the decision step stores that field as
  \<^verbatim>\<open>final_answer\<close> of the context and names the transition \<^verbatim>\<open>answer\<close>; the flow then
  takes exactly one more step, \<^verbatim>\<open>ProvideAnswer\<close>, which calls neither the model nor a
  tool and changes nothing in the context, and ends there.  The stored answer is the
  field's value as it is; nothing makes it non-empty.
\<close>

theorem answer_ends_flow:
  assumes "DecideAction_exec (call_llm (model_calls w)) safe_load (DecideAction_prep (ctx w))
             = Inr (PDict kvs)"
    and "map_of kvs (PStr ''action'') = Some (PScalar (PStr ''answer''))"
    and "map_of kvs (PStr ''final_answer'') = Some v"
    and "w1 = w\<lparr>node_steps := Suc (node_steps w), model_calls := Suc (model_calls w),
                 ctx := (ctx w)\<lparr>last_decision := Some (PDict kvs), final_answer := Some v\<rparr>\<rparr>"
  shows "node_run lg call_llm safe_load DecideAction w = (Inr ''answer'', w1)
       \<and> successors DecideAction ''answer'' = Some ProvideAnswer
       \<and> node_run lg call_llm safe_load ProvideAnswer w1 =
           (Inr ''done'', w1\<lparr>node_steps := Suc (node_steps w1)\<rparr>)
       \<and> successors ProvideAnswer ''done'' = None
       \<and> flow_orch lg call_llm safe_load DecideAction w =
           Some (Inr ''done'', w1\<lparr>node_steps := Suc (node_steps w1)\<rparr>)
       \<and> final_answer (ctx w1) = Some v
       \<and> tool_calls (ctx w1) = tool_calls (ctx w)
       \<and> model_calls w1 = Suc (model_calls w)"
proof -
  have ne: "PScalar (PStr ''answer'') \<noteq> PScalar (PStr ''tool'')" by simp
  have st: "\<not> enabled lg \<or> is_str (PScalar (PStr ''answer''))" by simp
  show ?thesis
    using node_run_decide_answer [where call_llm = call_llm and w = w and lg = lg,
        OF assms(1,2) ne st assms(3)]
      flow_orch_answer [where call_llm = call_llm and w = w and lg = lg,
        OF assms(1,2) ne st assms(3)] assms(4)
    by (simp add: node_run_ProvideAnswer)
qed

theorem answer_ends_flow_witness:
  "DecideAction_exec (scripted [fenced_reply answer_block] (model_calls test_start)) test_loader
      (DecideAction_prep (ctx test_start)) = Inr (PDict answer_decision)
   \<and> map_of answer_decision (PStr ''action'') = Some (PScalar (PStr ''answer''))
   \<and> map_of answer_decision (PStr ''final_answer'') = Some (PScalar (PStr ''five''))
   \<and> flow_orch loud (scripted [fenced_reply answer_block]) test_loader DecideAction test_start
     = Some (Inr ''done'',
         test_start\<lparr>node_steps := 2, model_calls := 1,
           ctx := test_shared\<lparr>last_decision := Some (PDict answer_decision),
                              final_answer := Some (PScalar (PStr ''five''))\<rparr>\<rparr>)"
proof -
  have e: "DecideAction_exec (scripted [fenced_reply answer_block] (model_calls test_start))
      test_loader (DecideAction_prep (ctx test_start)) = Inr (PDict answer_decision)"
    by (rule test_exec [where block = answer_block])
       (simp_all add: test_start_def extract_blocks load_blocks)
  have a: "map_of answer_decision (PStr ''action'') = Some (PScalar (PStr ''answer''))"
    and v: "map_of answer_decision (PStr ''final_answer'') = Some (PScalar (PStr ''five''))"
    by (simp_all add: answer_decision_def)
  note t = answer_ends_flow [where call_llm = "scripted [fenced_reply answer_block]"
      and w = test_start and lg = loud, OF e a v refl]
  have "flow_orch loud (scripted [fenced_reply answer_block]) test_loader DecideAction test_start
     = Some (Inr ''done'',
         test_start\<lparr>node_steps := 2, model_calls := 1,
           ctx := test_shared\<lparr>last_decision := Some (PDict answer_decision),
                              final_answer := Some (PScalar (PStr ''five''))\<rparr>\<rparr>)"
    using t by (simp add: test_start_def numeral_2_eq_2)
  with e a v show ?thesis by blast
qed

text \<open>
  C4 as stated says that the final answer is not empty.  A decision with action
  \<^verbatim>\<open>answer\<close> and the empty string as \<^verbatim>\<open>final_answer\<close> ends the run with the empty string
  as its answer.
\<close>

theorem answer_ends_flow_counterexample:
  "map_option fst (run quiet (scripted [fenced_reply empty_block]) test_loader
        test_agent ''What is 2+3?'') = Some (Inr (PScalar (PStr [])))"
proof -
  have "DecideAction_exec (scripted [fenced_reply empty_block] 0) test_loader
      (DecideAction_prep (initial_shared (append_message test_agent ''user''
          (PScalar (PStr ''What is 2+3?''))) ''What is 2+3?''))
     = Inr (PDict empty_decision)"
    by (rule test_exec [where block = empty_block]) (simp_all add: extract_blocks load_blocks)
  then show ?thesis
    by (subst run_first_answer [where kvs = empty_decision
          and act = "PScalar (PStr ''answer'')" and v = "PScalar (PStr [])"])
       (simp_all add: empty_decision_def)
qed




section \<open>The answer of a run\<close>

text \<open>
  A flow that ends without an exception has gone through \<^verbatim>\<open>ProvideAnswer\<close>, so a final
  answer has been stored: the fallback answer of \<^verbatim>\<open>Agent.run\<close> is never used with the
  flow that \<^verbatim>\<open>create_agent_flow\<close> builds.
\<close>

lemma node_run_decide_action:
  assumes "node_run lg call_llm safe_load DecideAction w = (Inr action, w1)"
  shows "action = ''tool'' \<or> (action = ''answer'' \<and> final_answer (ctx w1) \<noteq> None)"
  using assms
  by (auto simp: node_run_def DecideAction_post_def Let_def
        split: sum.splits if_splits prod.splits)

lemma node_run_call_tool_action:
  assumes "node_run lg call_llm safe_load CallTool w = (Inr action, w1)"
  shows "action = ''decide''"
  using assms
  by (auto simp: node_run_def CallTool_post_def Let_def split: sum.splits prod.splits)

lemma flow_orch_final_answer:
  assumes "flow_orch lg call_llm safe_load nd w = Some y"
  shows "\<forall>action w'. y = (Inr action, w') \<longrightarrow>
           (nd = ProvideAnswer \<longrightarrow> final_answer (ctx w) \<noteq> None) \<longrightarrow>
           action = ''done'' \<and> final_answer (ctx w') \<noteq> None"
  using assms
proof (induct rule: flow_orch.raw_induct [rotated 1, consumes 1])
  case (1 orch lg cl sl nd w y)
  show ?case
  proof (intro allI impI)
    fix action w'
    assume y: "y = (Inr action, w')"
      and pa: "nd = ProvideAnswer \<longrightarrow> final_answer (ctx w) \<noteq> None"
    obtain r w1 where nr: "node_run lg cl sl nd w = (r, w1)" by (cases "node_run lg cl sl nd w")
    show "action = ''done'' \<and> final_answer (ctx w') \<noteq> None"
    proof (cases r)
      case (Inl e)
      with 1(2) nr y show ?thesis by simp
    next
      case (Inr act)
      show ?thesis
      proof (cases "successors nd act")
        case None
        with 1(2) nr Inr y have eq: "action = act" "w' = w1" by simp_all
        show ?thesis
        proof (cases nd)
          case DecideAction
          with nr Inr node_run_decide_action [of lg cl sl w act w1] None show ?thesis by auto
        next
          case CallTool
          with nr Inr node_run_call_tool_action [of lg cl sl w act w1] None show ?thesis by auto
        next
          case ProvideAnswer
          with nr Inr pa eq show ?thesis
            by (auto simp: node_run_def ProvideAnswer_post_def Let_def)
        qed
      next
        case (Some nxt)
        with 1(2) nr Inr have rec: "orch lg cl sl nxt w1 = Some y" by simp
        have "nxt = ProvideAnswer \<longrightarrow> final_answer (ctx w1) \<noteq> None"
        proof (cases nd)
          case DecideAction
          with nr Inr node_run_decide_action [of lg cl sl w act w1] Some show ?thesis by auto
        next
          case CallTool
          with Some show ?thesis by (auto split: if_splits)
        next
          case ProvideAnswer
          with Some show ?thesis by simp
        qed
        with 1(1) [OF rec] y show ?thesis by blast
      qed
    qed
  qed
qed

lemma flow_run_final_answer:
  assumes "flow_run lg call_llm safe_load sh = Some (Inr action, sh')"
  shows "action = ''done'' \<and> final_answer sh' \<noteq> None"
proof -
  from assms obtain w' where
    "flow_orch lg call_llm safe_load DecideAction \<lparr>model_calls = 0, node_steps = 0, ctx = sh\<rparr>
       = Some (Inr action, w')" and "sh' = ctx w'"
    by (auto simp: flow_run_def flow_start_def)
  with flow_orch_final_answer [OF this(1)] show ?thesis by simp
qed

text \<open>
  C10.  When the flow ends without an exception and has left no \<^verbatim>\<open>final_answer\<close> in the
  context, \<^verbatim>\<open>run\<close> returns the string \<^verbatim>\<open>Unable to generate response\<close>, and the history
  of the agent grows by the user's query and by an assistant message with that same
  string.
\<close>

theorem fallback_answer:
  assumes "flow (initial_shared (append_message a ''user'' (PScalar (PStr q))) q)
             = Some (Inr action, sh')"
    and "final_answer sh' = None"
  shows "\<exists>a'. run_with flow a q = Some (Inr (PScalar (PStr ''Unable to generate response'')), a')
            \<and> self_conversation_history a' =
                self_conversation_history a @
                  [\<lparr>role = ''user'', content = PScalar (PStr q)\<rparr>,
                   \<lparr>role = ''assistant'',
                    content = PScalar (PStr ''Unable to generate response'')\<rparr>]"
  using assms by (simp add: run_with_def Let_def append_message_def)

theorem fallback_answer_witness:
  "(\<lambda>sh. Some (Inr ''done'', sh))
       (initial_shared (append_message test_agent ''user'' (PScalar (PStr ''Hello''))) ''Hello'')
     = Some (Inr ''done'',
          initial_shared (append_message test_agent ''user'' (PScalar (PStr ''Hello''))) ''Hello'')
   \<and> final_answer (initial_shared (append_message test_agent ''user'' (PScalar (PStr ''Hello'')))
        ''Hello'') = None
   \<and> (\<exists>a'. run_with (\<lambda>sh. Some (Inr ''done'', sh)) test_agent ''Hello''
            = Some (Inr (PScalar (PStr ''Unable to generate response'')), a')
         \<and> self_conversation_history a' =
             [\<lparr>role = ''user'', content = PScalar (PStr ''Hello'')\<rparr>,
              \<lparr>role = ''assistant'', content = PScalar (PStr ''Unable to generate response'')\<rparr>])"
  using fallback_answer [where flow = "\<lambda>sh. Some (Inr ''done'', sh)" and a = test_agent
      and q = "''Hello''" and action = "''done''", OF refl]
  by (simp add: initial_shared_def test_agent_def Agent_init_def)

section \<open>The history view\<close>

lemma join_contains:
  "x \<in> set xs \<Longrightarrow> \<exists>pre post. join sep xs = pre @ x @ post"
proof (induction sep xs rule: join.induct)
  case (1 sep)
  then show ?case by simp
next
  case (2 sep y)
  then have "join sep [y] = [] @ x @ []" by simp
  then show ?case by blast
next
  case (3 sep y z zs)
  show ?case
  proof (cases "x = y")
    case True
    then have "join sep (y # z # zs) = [] @ x @ (sep @ join sep (z # zs))" by simp
    then show ?thesis by blast
  next
    case False
    with 3 obtain pre post where "join sep (z # zs) = pre @ x @ post" by auto
    then have "join sep (y # z # zs) = (y @ sep @ pre) @ x @ post" by simp
    then show ?thesis by blast
  qed
qed

lemma format_message_roles:
  "format_message \<lparr>role = ''user'', content = c\<rparr> = ''USER: '' @ py_str c"
  "format_message \<lparr>role = ''assistant'', content = c\<rparr> = ''ASSISTANT: '' @ py_str c"
  by (simp_all add: format_message_def upper_roles)

lemma recent_letters:
  "recent_history letters_agent =
     map (\<lambda>(r, c). \<lparr>role = r, content = PScalar (PStr [c])\<rparr>)
       (zip (concat (replicate 10 [''assistant'', ''user''])) ''bcdefghijklmnopqrstu'')"
  by (simp add: recent_history_def letters_agent_def slice_last_def eval_nat_numeral)

text \<open>
  C5.  The history that seeds a run is rendered from the last 20 messages of the
  conversation history, oldest first: the rendered messages are a suffix of the history,
  as many as the history has up to 20, and exactly 20 when it has at least 20.  Each of
  them is rendered as a line with its role in capitals, a colon and its content, so the
  view contains every one of them and a query or answer that is a string as it is.
  Rendering leaves the history itself as it is, and a run only appends to it.
\<close>

theorem history_view_last_20:
  "conversation_history (initial_shared a q) = get_optimized_history a
   \<and> get_optimized_history a =
       (if self_conversation_history a = [] then ''No previous conversation''
        else join newline (map format_message (recent_history a)))
   \<and> (\<forall>msg. format_message msg = py_upper (role msg) @ '': '' @ py_str (content msg))
   \<and> (\<forall>c. format_message \<lparr>role = ''user'', content = c\<rparr> = ''USER: '' @ py_str c)
   \<and> (\<forall>c. format_message \<lparr>role = ''assistant'', content = c\<rparr> = ''ASSISTANT: '' @ py_str c)
   \<and> (\<forall>s. py_str (PScalar (PStr s)) = s)
   \<and> (\<forall>msg \<in> set (recent_history a).
         \<exists>pre post. get_optimized_history a = pre @ format_message msg @ post)
   \<and> (\<exists>older. self_conversation_history a = older @ recent_history a)
   \<and> length (recent_history a) = min (length (self_conversation_history a)) 20
   \<and> (20 \<le> length (self_conversation_history a) \<longrightarrow> length (recent_history a) = 20)
   \<and> (\<forall>flow r a'. run_with flow a q = Some (r, a') \<longrightarrow>
         (\<exists>ms. self_conversation_history a' = self_conversation_history a @ ms))"
proof -
  have 1: "conversation_history (initial_shared a q) = get_optimized_history a"
    by (simp add: initial_shared_def)
  have 2: "get_optimized_history a =
       (if self_conversation_history a = [] then ''No previous conversation''
        else join newline (map format_message (recent_history a)))"
    by (simp add: get_optimized_history_def recent_history_def slice_last_Nil)
  have 3: "\<exists>older. self_conversation_history a = older @ recent_history a"
    unfolding recent_history_def by (rule slice_last_suffix)
  have 4: "length (recent_history a) = min (length (self_conversation_history a)) 20"
    unfolding recent_history_def by (rule slice_last_length)
  have 5: "\<exists>ms. self_conversation_history a' = self_conversation_history a @ ms"
    if "run_with flow a q = Some (r, a')" for flow r a'
    using that
    by (auto simp: run_with_def Let_def append_message_def
          split: option.splits prod.splits sum.splits)
  have 6: "\<exists>pre post. get_optimized_history a = pre @ format_message msg @ post"
    if "msg \<in> set (recent_history a)" for msg
  proof -
    from that have ne: "recent_history a \<noteq> []" by auto
    have "format_message msg \<in> set (map format_message (recent_history a))"
      using that by simp
    from join_contains [OF this, of newline] ne show ?thesis
      by (simp add: get_optimized_history_def)
  qed
  have 7: "\<forall>msg. format_message msg = py_upper (role msg) @ '': '' @ py_str (content msg)"
    by (simp add: format_message_def)
  from 1 2 3 4 5 6 7 format_message_roles show ?thesis
    by (intro conjI) auto
qed

theorem history_view_last_20_witness:
  "20 \<le> length (self_conversation_history long_agent)
   \<and> length (recent_history long_agent) = 20
   \<and> run_with (\<lambda>sh. Some (Inl IndexError, sh)) long_agent ''next''
       = Some (Inl IndexError, append_message long_agent ''user'' (PScalar (PStr ''next'')))
   \<and> (\<exists>ms. self_conversation_history (append_message long_agent ''user'' (PScalar (PStr ''next'')))
         = self_conversation_history long_agent @ ms)
   \<and> length (self_conversation_history letters_agent) = 21
   \<and> get_optimized_history letters_agent =
       join newline
         [''ASSISTANT: b'', ''USER: c'', ''ASSISTANT: d'', ''USER: e'', ''ASSISTANT: f'',
          ''USER: g'', ''ASSISTANT: h'', ''USER: i'', ''ASSISTANT: j'', ''USER: k'',
          ''ASSISTANT: l'', ''USER: m'', ''ASSISTANT: n'', ''USER: o'', ''ASSISTANT: p'',
          ''USER: q'', ''ASSISTANT: r'', ''USER: s'', ''ASSISTANT: t'', ''USER: u'']"
proof -
  have r: "run_with (\<lambda>sh. Some (Inl IndexError, sh)) long_agent ''next''
       = Some (Inl IndexError, append_message long_agent ''user'' (PScalar (PStr ''next'')))"
    by (simp add: run_with_def Let_def)
  have l: "20 \<le> length (self_conversation_history long_agent)"
    by (simp add: long_agent_def)
  have n: "length (self_conversation_history letters_agent) = 21"
    by (simp add: letters_agent_def eval_nat_numeral)
  then have ne: "self_conversation_history letters_agent \<noteq> []"
    by auto
  note t = history_view_last_20 [of letters_agent "''next''"]
  have v: "get_optimized_history letters_agent =
       join newline
         [''ASSISTANT: b'', ''USER: c'', ''ASSISTANT: d'', ''USER: e'', ''ASSISTANT: f'',
          ''USER: g'', ''ASSISTANT: h'', ''USER: i'', ''ASSISTANT: j'', ''USER: k'',
          ''ASSISTANT: l'', ''USER: m'', ''ASSISTANT: n'', ''USER: o'', ''ASSISTANT: p'',
          ''USER: q'', ''ASSISTANT: r'', ''USER: s'', ''ASSISTANT: t'', ''USER: u'']"
    using t [THEN conjunct2, THEN conjunct1] ne
      t [THEN conjunct2, THEN conjunct2, THEN conjunct2, THEN conjunct1]
      t [THEN conjunct2, THEN conjunct2, THEN conjunct2, THEN conjunct2, THEN conjunct1]
    by (simp add: recent_letters eval_nat_numeral del: join.simps)
  show ?thesis
    using history_view_last_20 [of long_agent "''next''"] r l n v by blast
qed

section \<open>The recent tool calls in the prompt\<close>

lemma unlines_mid: "\<exists>pre post. unlines (xs @ x # ys) = pre @ x @ post"
  by (auto simp: unlines_def)

lemma build_prompt_has_tool_history:
  "\<exists>pre post. build_prompt inputs = pre @ tool_history (in_tool_calls inputs) @ post"
proof -
  obtain xs ys where
    "build_prompt inputs = unlines (xs @ tool_history (in_tool_calls inputs) # ys)"
    unfolding build_prompt_def
    by (metis append_Cons append_Nil)
  then show ?thesis using unlines_mid by metis
qed

text \<open>
  C7.  The section of the prompt on recent tool calls is empty exactly when no call has
  been recorded; otherwise it is the line \<^verbatim>\<open>Recent Tool Calls:\<close> followed by one line
  for each of the last 5 records at most, in their order, and a line holds the first 200
  characters of the record's result followed by three dots.
\<close>

theorem recent_tool_calls_section:
  "(tool_history calls = [] \<longleftrightarrow> calls = [])
   \<and> (calls \<noteq> [] \<longrightarrow>
        tool_history calls =
          newline @ ''Recent Tool Calls:'' @ newline
            @ join newline (map call_line (slice_last 5 calls)))
   \<and> (\<exists>older. calls = older @ slice_last 5 calls)
   \<and> length (slice_last 5 calls) = min (length calls) 5
   \<and> (\<forall>c. call_line c =
             ''- '' @ str_scalar (tc_tool c) @ '': '' @ take 200 (tc_result c) @ ''...'')
   \<and> (\<exists>pre post. build_prompt (DecideAction_prep sh) = pre @ tool_history (tool_calls sh) @ post)"
proof -
  have 1: "tool_history calls = [] \<longleftrightarrow> calls = []"
    by (simp add: tool_history_def newline_def)
  have 2: "calls \<noteq> [] \<longrightarrow>
        tool_history calls =
          newline @ ''Recent Tool Calls:'' @ newline
            @ join newline (map call_line (slice_last 5 calls))"
    by (simp add: tool_history_def)
  have 5: "\<forall>c. call_line c =
             ''- '' @ str_scalar (tc_tool c) @ '': '' @ take 200 (tc_result c) @ ''...''"
    by (simp add: call_line_def slice_first_def)
  have 6: "\<exists>pre post. build_prompt (DecideAction_prep sh) = pre @ tool_history (tool_calls sh) @ post"
    using build_prompt_has_tool_history [of "DecideAction_prep sh"]
    by (simp add: DecideAction_prep_def)
  from 1 2 5 6 slice_last_suffix [of calls 5] slice_last_length [of 5 calls]
  show ?thesis by blast
qed

theorem recent_tool_calls_section_witness:
  "test_calls \<noteq> []
   \<and> tool_history test_calls =
       newline @ ''Recent Tool Calls:'' @ newline @ ''- add: 5...'' @ newline
         @ ''- fail: Error calling fail: no data...''"
proof -
  have ne: "test_calls \<noteq> []" by (simp add: test_calls_def)
  have "slice_last 5 test_calls = test_calls"
    by (simp add: slice_last_def test_calls_def)
  moreover have "map call_line test_calls =
      [''- add: 5...'', ''- fail: Error calling fail: no data...'']"
    using recent_tool_calls_section [of test_calls]
    by (simp add: test_calls_def)
  ultimately show ?thesis
    using recent_tool_calls_section [of test_calls] ne by simp
qed

section \<open>Registering a tool\<close>

text \<open>
  C8.  The registered description of a callable keeps its parameters in order, each with
  the label of its declared type, or \<^verbatim>\<open>Any\<close> without an annotation, with its default
  value, or \<^verbatim>\<open>None\<close> without one, and with the label of its kind; the description is the
  documentation string when there is a non-empty one and \<^verbatim>\<open>Function <name>\<close> otherwise.
\<close>

theorem register_tool_metadata:
  "ti_name (register_tool tool) = fn_name tool
   \<and> map fst (ti_parameters (register_tool tool)) = map fst (fn_parameters tool)
   \<and> (\<forall>i < length (fn_parameters tool).
        pi_type (snd (ti_parameters (register_tool tool) ! i)) =
          (case map_of (fn_type_hints tool) (fst (fn_parameters tool ! i)) of
             None \<Rightarrow> ''Any'' | Some t \<Rightarrow> t)
        \<and> pi_default (snd (ti_parameters (register_tool tool) ! i)) =
          (case p_default (snd (fn_parameters tool ! i)) of
             None \<Rightarrow> PScalar PNone | Some v \<Rightarrow> v)
        \<and> pi_kind (snd (ti_parameters (register_tool tool) ! i)) =
          str_kind (p_kind (snd (fn_parameters tool ! i))))
   \<and> (\<forall>d. fn_doc tool = Some d \<and> d \<noteq> [] \<longrightarrow> ti_description (register_tool tool) = d)
   \<and> (fn_doc tool = None \<or> fn_doc tool = Some [] \<longrightarrow>
        ti_description (register_tool tool) = ''Function '' @ fn_name tool)"
  by (auto simp: register_tool_def register_param_def Let_def split: prod.splits option.splits)

theorem register_tool_metadata_witness:
  "(1::nat) < length (fn_parameters add_tool) \<and> (1::nat) < length (fn_parameters fail_tool)
   \<and> pi_type (snd (ti_parameters (register_tool add_tool) ! 1)) = class_int
   \<and> pi_default (snd (ti_parameters (register_tool add_tool) ! 1)) = PScalar (PInt 0)
   \<and> pi_kind (snd (ti_parameters (register_tool add_tool) ! 1)) = ''POSITIONAL_OR_KEYWORD''
   \<and> ti_description (register_tool add_tool) = ''Add two numbers.''
   \<and> pi_type (snd (ti_parameters (register_tool fail_tool) ! 1)) = ''Any''
   \<and> pi_default (snd (ti_parameters (register_tool fail_tool) ! 1)) = PScalar PNone
   \<and> pi_kind (snd (ti_parameters (register_tool fail_tool) ! 1)) = ''KEYWORD_ONLY''
   \<and> ti_description (register_tool fail_tool) = ''Function fail''"
proof -
  have a: "fn_parameters add_tool ! Suc 0 =
             (''b'', \<lparr>p_default = Some (PScalar (PInt 0)), p_kind = POSITIONAL_OR_KEYWORD\<rparr>)"
    "length (fn_parameters add_tool) = 2" "fn_doc add_tool = Some ''Add two numbers.''"
    "fn_type_hints add_tool = [(''a'', class_int), (''b'', class_int), (''return'', class_int)]"
    by (simp_all add: add_tool_def)
  have d: "fn_parameters fail_tool ! Suc 0 = (''code'', \<lparr>p_default = None, p_kind = KEYWORD_ONLY\<rparr>)"
    "length (fn_parameters fail_tool) = 2" "fn_doc fail_tool = None" "fn_name fail_tool = ''fail''"
    "fn_type_hints fail_tool = []"
    by (simp_all add: fail_tool_def)
  note ta = register_tool_metadata [of add_tool]
  note td = register_tool_metadata [of fail_tool]
  have pa: "pi_type (snd (ti_parameters (register_tool add_tool) ! 1)) = class_int
      \<and> pi_default (snd (ti_parameters (register_tool add_tool) ! 1)) = PScalar (PInt 0)
      \<and> pi_kind (snd (ti_parameters (register_tool add_tool) ! 1)) = ''POSITIONAL_OR_KEYWORD''"
    using ta [THEN conjunct2, THEN conjunct2, THEN conjunct1, rule_format, of 1]
    by (simp add: a)
  have pd: "pi_type (snd (ti_parameters (register_tool fail_tool) ! 1)) = ''Any''
      \<and> pi_default (snd (ti_parameters (register_tool fail_tool) ! 1)) = PScalar PNone
      \<and> pi_kind (snd (ti_parameters (register_tool fail_tool) ! 1)) = ''KEYWORD_ONLY''"
    using td [THEN conjunct2, THEN conjunct2, THEN conjunct1, rule_format, of 1]
    by (simp add: d)
  have da: "ti_description (register_tool add_tool) = ''Add two numbers.''"
    using ta by (simp add: a)
  have dd: "ti_description (register_tool fail_tool) = ''Function fail''"
    using td by (simp add: d)
  from pa pd da dd show ?thesis by (simp add: a d)
qed

section \<open>A run with one tool call\<close>

text \<open>
  The model asks for \<^verbatim>\<open>add(a=2, b=3)\<close> and then answers \<^verbatim>\<open>5\<close>: the run returns \<^verbatim>\<open>5\<close> and
  the lifetime log of tool calls holds the one call, with the result \<^verbatim>\<open>5\<close>.
\<close>

lemma scenario_add:
  "\<exists>a'. run quiet (scripted [fenced_reply add_block, fenced_reply five_block]) test_loader
            test_agent ''What is 2+3?''
          = Some (Inr (PScalar (PStr ''5'')), a')
      \<and> self_tool_call_history a' = [add_record]"
proof -
  let ?llm = "scripted [fenced_reply add_block, fenced_reply five_block]"
  have st: "flow_steps quiet ?llm test_loader 2
       (flow_start, \<lparr>model_calls = 0, node_steps = 0, ctx = test_shared\<rparr>)
     = Some (DecideAction, add_done)"
    using test_add_steps [of "[fenced_reply add_block, fenced_reply five_block]" quiet]
    by (simp add: flow_start_def test_start_def)
  have e: "DecideAction_exec (?llm (model_calls add_done)) test_loader
             (DecideAction_prep (ctx add_done)) = Inr (PDict five_decision)"
    by (rule test_exec [where block = five_block])
       (simp_all add: add_done_def extract_blocks load_blocks)
  have "flow_orch quiet ?llm test_loader DecideAction add_done =
      Some (Inr ''done'',
        add_done\<lparr>node_steps := Suc (Suc (node_steps add_done)),
          model_calls := Suc (model_calls add_done),
          ctx := (ctx add_done)\<lparr>last_decision := Some (PDict five_decision),
                                 final_answer := Some (PScalar (PStr ''5''))\<rparr>\<rparr>)"
    by (rule flow_orch_answer [where call_llm = ?llm and w = add_done
          and act = "PScalar (PStr ''answer'')", OF e])
       (simp_all add: five_decision_def)
  from flow_run_steps [OF st this]
  have "flow_run quiet ?llm test_loader test_shared =
      Some (Inr ''done'',
        (ctx add_done)\<lparr>last_decision := Some (PDict five_decision),
                        final_answer := Some (PScalar (PStr ''5''))\<rparr>)"
    by simp
  then have fr: "flow_run quiet ?llm test_loader
      (initial_shared (append_message test_agent ''user'' (PScalar (PStr ''What is 2+3?'')))
         ''What is 2+3?'') =
      Some (Inr ''done'',
        (ctx add_done)\<lparr>last_decision := Some (PDict five_decision),
                        final_answer := Some (PScalar (PStr ''5''))\<rparr>)"
    by (simp only: test_shared_def)
  have h: "self_tool_call_history test_agent = []"
    by (simp add: test_agent_def Agent_init_def)
  show ?thesis
    unfolding run_def run_with_def Let_def fr
    by (simp add: add_done_def append_message_def h)
qed


end
